theory Spec2Isabelle
  imports Complex_Main "HOL-Library.Char_ord" "HOL-Library.List_Lexorder"
begin

text \<open>
  A users table behind five REST routes. The development follows the sources: the user
  model with \<^verbatim>\<open>validateUserData\<close> and \<^verbatim>\<open>sanitizeUserData\<close> (models/User.ts), the
  service with its SQL statements (services/UserService.ts), the route handlers
  (routes/userRoutes.ts), and the table of the schema file with its constraints and
  sample rows. Functions that throw return a sum, with the error on the left; functions
  that query the database take it and return it.
\<close>

section \<open>JavaScript values used by the service\<close>

text \<open>
  A JavaScript \<^verbatim>\<open>number\<close> is either \<^verbatim>\<open>NaN\<close> or a finite value. The finite values are
  taken from an ordered ring given as a type parameter: \<open>real\<close> for numbers that arrive in a
  JSON body (the age, which may have a fraction before \<^verbatim>\<open>Math.floor\<close>), \<open>int\<close> for numbers the
  route handlers produce with \<^verbatim>\<open>parseInt\<close> (ids, page, limit, minAge, maxAge). Arithmetic is
  exact: rounding to a double, the infinities and the negative zero are not modelled.
\<close>

datatype 'a jsnum = NaN | Fin 'a

text \<open>Truthiness of a number: \<^verbatim>\<open>0\<close> and \<^verbatim>\<open>NaN\<close> are falsy.\<close>

definition num_truthy :: "'a::zero jsnum \<Rightarrow> bool" where
  "num_truthy n = (case n of NaN \<Rightarrow> False | Fin r \<Rightarrow> r \<noteq> 0)"

text \<open>The relational operators: every comparison with \<^verbatim>\<open>NaN\<close> is false.\<close>

definition num_lt :: "'a::ord jsnum \<Rightarrow> 'a jsnum \<Rightarrow> bool" where
  "num_lt a b = (case a of NaN \<Rightarrow> False | Fin x \<Rightarrow> (case b of NaN \<Rightarrow> False | Fin y \<Rightarrow> x < y))"

definition num_gt :: "'a::ord jsnum \<Rightarrow> 'a jsnum \<Rightarrow> bool" where
  "num_gt a b = num_lt b a"

definition num_le :: "'a::ord jsnum \<Rightarrow> 'a jsnum \<Rightarrow> bool" where
  "num_le a b = (case a of NaN \<Rightarrow> False | Fin x \<Rightarrow> (case b of NaN \<Rightarrow> False | Fin y \<Rightarrow> x \<le> y))"

definition Math_floor :: "real jsnum \<Rightarrow> real jsnum" where
  "Math_floor n = (case n of NaN \<Rightarrow> NaN | Fin r \<Rightarrow> Fin (of_int \<lfloor>r\<rfloor>))"

definition Math_max :: "'a::linorder jsnum \<Rightarrow> 'a jsnum \<Rightarrow> 'a jsnum" where
  "Math_max a b = (case a of NaN \<Rightarrow> NaN | Fin x \<Rightarrow> (case b of NaN \<Rightarrow> NaN | Fin y \<Rightarrow> Fin (max x y)))"

definition Math_min :: "'a::linorder jsnum \<Rightarrow> 'a jsnum \<Rightarrow> 'a jsnum" where
  "Math_min a b = (case a of NaN \<Rightarrow> NaN | Fin x \<Rightarrow> (case b of NaN \<Rightarrow> NaN | Fin y \<Rightarrow> Fin (min x y)))"

text \<open>
  A property of an object is absent (\<^verbatim>\<open>'k' in obj\<close> is false), present with the value
  \<^verbatim>\<open>undefined\<close>, or present with a value of the type the interface declares.
\<close>

datatype 'a field = Absent | Undefined | Val 'a

definition key_in :: "'a field \<Rightarrow> bool" where
  "key_in f = (case f of Absent \<Rightarrow> False | Undefined \<Rightarrow> True | Val v \<Rightarrow> True)"

text \<open>Reading \<^verbatim>\<open>obj.k\<close>: \<open>None\<close> stands for \<^verbatim>\<open>undefined\<close>.\<close>

definition field_get :: "'a field \<Rightarrow> 'a option" where
  "field_get f = (case f of Absent \<Rightarrow> None | Undefined \<Rightarrow> None | Val v \<Rightarrow> Some v)"

subsection \<open>Strings\<close>

text \<open>
  A string is a list of characters with codes below 256, read as the code points
  U+0000 to U+00FF. On these, \<^verbatim>\<open>trim\<close> strips TAB, LF, VT, FF, CR, SPACE and NBSP, and
  \<^verbatim>\<open>toLowerCase\<close> moves A-Z and the Latin-1 capitals U+00C0 to U+00DE (but U+00D7) up by 32.
\<close>

definition is_white_space :: "char \<Rightarrow> bool" where
  "is_white_space c = (of_char c \<in> {9, 10, 11, 12, 13, 32, 160 :: nat})"

definition trim :: "string \<Rightarrow> string" where
  "trim s = rev (dropWhile is_white_space (rev (dropWhile is_white_space s)))"

definition is_upper :: "char \<Rightarrow> bool" where
  "is_upper c = (let n = of_char c :: nat in
     (65 \<le> n \<and> n \<le> 90) \<or> (192 \<le> n \<and> n \<le> 222 \<and> n \<noteq> 215))"

definition lower_char :: "char \<Rightarrow> char" where
  "lower_char c = (if is_upper c then char_of (of_char c + 32 :: nat) else c)"

definition toLowerCase :: "string \<Rightarrow> string" where
  "toLowerCase s = map lower_char s"

text \<open>\<^verbatim>\<open>xs.join(sep)\<close> on an array of strings.\<close>

fun join :: "string list \<Rightarrow> string \<Rightarrow> string" where
  "join [] sep = []"
| "join [x] sep = x"
| "join (x # y # ys) sep = x @ sep @ join (y # ys) sep"

text \<open>\<^verbatim>\<open>s.includes(sub)\<close>: \<open>sub\<close> occurs in \<open>s\<close> as a contiguous block.\<close>

fun starts_with :: "string \<Rightarrow> string \<Rightarrow> bool" where
  "starts_with s [] = True"
| "starts_with [] (c # cs) = False"
| "starts_with (d # ds) (c # cs) = (d = c \<and> starts_with ds cs)"

fun str_includes :: "string \<Rightarrow> string \<Rightarrow> bool" where
  "str_includes [] sub = (sub = [])"
| "str_includes (c # cs) sub = (starts_with (c # cs) sub \<or> str_includes cs sub)"

text \<open>The decimal digits of a natural number, as a template literal prints it.\<close>

definition digit_char :: "nat \<Rightarrow> char" where
  "digit_char d = ''0123456789'' ! d"

fun nat_to_string :: "nat \<Rightarrow> string" where
  "nat_to_string n =
     (if n < 10 then [digit_char n] else nat_to_string (n div 10) @ [digit_char (n mod 10)])"

declare nat_to_string.simps [simp del]

text \<open>
  \<^verbatim>\<open>`${n}`\<close> for a number produced by \<^verbatim>\<open>parseInt\<close> (exact below \<open>10^21\<close>, where JavaScript
  switches to the exponent form).
\<close>

definition int_to_string :: "int jsnum \<Rightarrow> string" where
  "int_to_string n = (case n of
       NaN \<Rightarrow> ''NaN''
     | Fin k \<Rightarrow> (if k < 0 then ''-'' @ nat_to_string (nat (- k)) else nat_to_string (nat k)))"

section \<open>The user model: models/User.ts\<close>

text \<open>
  \<^verbatim>\<open>CreateUserRequest | UpdateUserRequest\<close>: the three properties a request body carries,
  each with the type its interface declares. (With these types the branches
  \<^verbatim>\<open>typeof name !== 'string'\<close>, \<^verbatim>\<open>typeof email !== 'string'\<close> and \<^verbatim>\<open>typeof age !== 'number'\<close> of
  \<^verbatim>\<open>validateUserData\<close> cannot be taken; they are noted where they stand.)
\<close>

record user_data =
  d_name :: "string field"
  d_email :: "string field"
  d_age :: "real jsnum field"

text \<open>\<^verbatim>\<open>USER_VALIDATION\<close>\<close>

definition NAME_MIN_LENGTH :: nat where "NAME_MIN_LENGTH = 2"
definition NAME_MAX_LENGTH :: nat where "NAME_MAX_LENGTH = 100"
definition EMAIL_MAX_LENGTH :: nat where "EMAIL_MAX_LENGTH = 255"
definition AGE_MIN :: nat where "AGE_MIN = 0"
definition AGE_MAX :: nat where "AGE_MAX = 100"
definition DEFAULT_PAGE :: int where "DEFAULT_PAGE = 1"
definition DEFAULT_LIMIT :: int where "DEFAULT_LIMIT = 10"
definition MAX_LIMIT :: int where "MAX_LIMIT = 100"

subsection \<open>validateUserData\<close>

text \<open>
  The function appends to \<^verbatim>\<open>errors\<close> in three blocks, one per field; each block is a
  definition here and \<open>validateUserData\<close> concatenates them in the source's order.
\<close>

definition name_errors :: "user_data \<Rightarrow> bool \<Rightarrow> string list" where
  "name_errors userData isUpdate =
     (if \<not> isUpdate \<or> key_in (d_name userData) then
        (case field_get (d_name userData) of
           None \<Rightarrow> [''Name is required.'']
         | Some name \<Rightarrow>
             if name = [] then [''Name is required.'']
             \<comment> \<open>\<^verbatim>\<open>typeof name !== 'string'\<close>: excluded by the type\<close>
             else if length name < NAME_MIN_LENGTH then
               [''Name must be at least '' @ nat_to_string NAME_MIN_LENGTH]
             else if length name > NAME_MAX_LENGTH then
               [''Name must be no more than '' @ nat_to_string NAME_MAX_LENGTH @ '' characters long'']
             else [])
      else [])"

definition email_errors :: "user_data \<Rightarrow> bool \<Rightarrow> string list" where
  "email_errors userData isUpdate =
     (if \<not> isUpdate \<or> key_in (d_email userData) then
        (case field_get (d_email userData) of
           None \<Rightarrow> [''Email is required.'']
         | Some email \<Rightarrow>
             if email = [] then [''Email is required.'']
             \<comment> \<open>\<^verbatim>\<open>typeof email !== 'string'\<close>: excluded by the type\<close>
             else if length email > EMAIL_MAX_LENGTH then
               [''Email must be no more than '' @ nat_to_string EMAIL_MAX_LENGTH @ '' characters long'']
             else [])
      else [])"

text \<open>
  The age block compares with \<^verbatim>\<open>USER_VALIDATION.AGE_MIN\<close> in both of its last two branches
  and prints \<^verbatim>\<open>AGE_MIN\<close> in both messages, as the source does.
\<close>

definition age_errors :: "user_data \<Rightarrow> bool \<Rightarrow> string list" where
  "age_errors userData isUpdate =
     (if \<not> isUpdate \<or> key_in (d_age userData) then
        (case field_get (d_age userData) of
           None \<Rightarrow> [''Age is required.'']
         | Some age \<Rightarrow>
             if \<not> num_truthy age then [''Age is required.'']
             \<comment> \<open>\<^verbatim>\<open>typeof age !== 'number'\<close>: excluded by the type\<close>
             else if num_lt age (Fin (real AGE_MIN)) then
               [''Age must be at least '' @ nat_to_string AGE_MIN]
             else if num_gt age (Fin (real AGE_MIN)) then
               [''Age must be no more than '' @ nat_to_string AGE_MIN @ '' characters long'']
             else [])
      else [])"

definition validateUserData :: "user_data \<Rightarrow> bool \<Rightarrow> string list" where
  "validateUserData userData isUpdate =
     name_errors userData isUpdate @ email_errors userData isUpdate @ age_errors userData isUpdate"

subsection \<open>sanitizeUserData\<close>

text \<open>
  The spread copies every own property, so the keys of the copy are the keys of the
  input; each of the three assignments overwrites a property that is present and truthy.
\<close>

definition sanitizeUserData :: "user_data \<Rightarrow> user_data" where
  "sanitizeUserData userData =
     (let sanitized = userData;
          sanitized = (case d_name sanitized of
                         Val name \<Rightarrow> if name \<noteq> [] then sanitized\<lparr>d_name := Val (trim name)\<rparr>
                                     else sanitized
                       | _ \<Rightarrow> sanitized);
          sanitized = (case d_email sanitized of
                         Val email \<Rightarrow> if email \<noteq> []
                                      then sanitized\<lparr>d_email := Val (toLowerCase (trim email))\<rparr>
                                      else sanitized
                       | _ \<Rightarrow> sanitized);
          sanitized = (case d_age sanitized of
                         Val age \<Rightarrow> if num_truthy age
                                    then sanitized\<lparr>d_age := Val (Math_floor age)\<rparr>
                                    else sanitized
                       | _ \<Rightarrow> sanitized)
      in sanitized)"

text \<open>\<^verbatim>\<open>Object.keys\<close> of a request body, in the interface's order.\<close>

definition object_keys :: "user_data \<Rightarrow> string list" where
  "object_keys userData =
     (if key_in (d_name userData) then [''name''] else []) @
     (if key_in (d_email userData) then [''email''] else []) @
     (if key_in (d_age userData) then [''age''] else [])"

text \<open>\<^verbatim>\<open>User\<close>: a row of the table. A timestamp is a point on the database's clock.\<close>

record user =
  u_id :: nat
  u_name :: string
  u_email :: string
  u_age :: "int option"
  u_created_at :: nat
  u_updated_at :: nat

text \<open>
  \<^verbatim>\<open>UserResponse\<close>. \<^verbatim>\<open>toISOString\<close> prints the timestamp; the response keeps the point in
  time it prints.
\<close>

record user_response =
  r_id :: nat
  r_name :: string
  r_email :: string
  r_age :: "int option"
  r_created_at :: nat
  r_updated_at :: nat

definition userToResponse :: "user \<Rightarrow> user_response" where
  "userToResponse u =
     \<lparr>r_id = u_id u, r_name = u_name u, r_email = u_email u, r_age = u_age u,
      r_created_at = u_created_at u, r_updated_at = u_updated_at u\<rparr>"

text \<open>\<^verbatim>\<open>UserQueryParams\<close>: every property is optional; \<open>None\<close> is \<^verbatim>\<open>undefined\<close>.\<close>

record user_query_params =
  q_page :: "int jsnum option"
  q_limit :: "int jsnum option"
  q_name :: "string option"
  q_email :: "string option"
  q_minAge :: "int jsnum option"
  q_maxAge :: "int jsnum option"
  q_sortBy :: "string option"
  q_sortOrder :: "string option"

record pagination =
  p_page :: "int jsnum"
  p_limit :: "int jsnum"
  p_total :: "int jsnum"
  p_totalPages :: "int jsnum"
  p_hasNext :: bool
  p_hasPrev :: bool

record paginated_users_response =
  pr_users :: "user_response list"
  pr_pagination :: pagination

section \<open>parseInt\<close>

text \<open>
  \<^verbatim>\<open>parseInt(s)\<close> with no radix: leading white space is skipped, then an optional sign, then
  an optional \<^verbatim>\<open>0x\<close> or \<^verbatim>\<open>0X\<close> (which selects radix 16), then the longest run of digits of
  the radix; what follows the digits is ignored, and no digit at all gives \<^verbatim>\<open>NaN\<close>.
\<close>

definition digit_val :: "char \<Rightarrow> nat option" where
  "digit_val c = (let n = of_char c :: nat in
     if 48 \<le> n \<and> n \<le> 57 then Some (n - 48)
     else if 97 \<le> n \<and> n \<le> 102 then Some (n - 87)
     else if 65 \<le> n \<and> n \<le> 70 then Some (n - 55)
     else None)"

fun parse_digits :: "nat \<Rightarrow> string \<Rightarrow> nat option \<Rightarrow> nat option" where
  "parse_digits R [] acc = acc"
| "parse_digits R (c # cs) acc =
     (case digit_val c of
        None \<Rightarrow> acc
      | Some d \<Rightarrow>
          if d < R then parse_digits R cs (Some (R * (case acc of None \<Rightarrow> 0 | Some a \<Rightarrow> a) + d))
          else acc)"

definition parseInt :: "string \<Rightarrow> int jsnum" where
  "parseInt s =
     (let s1 = dropWhile is_white_space s;
          neg = starts_with s1 ''-'';
          s2 = (if starts_with s1 ''-'' \<or> starts_with s1 ''+'' then tl s1 else s1);
          hex = (starts_with s2 ''0x'' \<or> starts_with s2 ''0X'');
          R = (if hex then 16 else 10);
          s3 = (if hex then drop 2 s2 else s2)
      in case parse_digits R s3 None of
           None \<Rightarrow> NaN
         | Some n \<Rightarrow> Fin (if neg then - int n else int n))"

definition isNaN :: "'a jsnum \<Rightarrow> bool" where
  "isNaN n = (case n of NaN \<Rightarrow> True | Fin x \<Rightarrow> False)"

section \<open>The database\<close>

text \<open>
  The service reaches PostgreSQL through \<^verbatim>\<open>DatabaseConnection.query(text, params)\<close>. The
  database is modelled as the one table the schema file declares, a sequence for \<^verbatim>\<open>id\<close>, a
  clock for \<^verbatim>\<open>NOW()\<close> and the list of the statements executed so far, each with its bound
  parameters. A statement is the syntax tree of the SQL text the service builds; \<open>sql_text\<close>
  prints the text and \<open>exec\<close> gives the meaning. The pool always has a connection: lost
  connections and timeouts are not modelled.
\<close>

datatype sqlval = SqlNull | SqlNum "real jsnum" | SqlStr string

definition num_real :: "int jsnum \<Rightarrow> real jsnum" where
  "num_real n = (case n of NaN \<Rightarrow> NaN | Fin k \<Rightarrow> Fin (of_int k))"

record db =
  db_rows :: "user list"
  db_next_id :: nat
  db_now :: nat
  db_log :: "(string \<times> sqlval list) list"

datatype db_error =
  InvalidParameter | NumericValueOutOfRange | StringTooLong | NotNullViolation
  | CheckViolation | UniqueViolation | UndefinedColumn | SyntaxError

datatype qresult = Rows "user list" | Ids "nat list" | Count nat

subsection \<open>The statements and their text\<close>

text \<open>A condition of the WHERE clause and an assignment of the SET clause, each with the
  index of its parameter.\<close>

datatype cond = NameILike nat | EmailILike nat | AgeGe nat | AgeLe nat

datatype set_field = SetName nat | SetEmail nat | SetAge nat | SetUpdatedAt

datatype stmt =
  InsertUser
  | SelectUserByEmail
  | SelectUserById
  | DeleteUserById
  | CountUsers "cond list"
  | SelectUsers "cond list" string string nat
  | UpdateUser "set_field list" nat

definition param :: "nat \<Rightarrow> string" where
  "param i = ''$'' @ nat_to_string i"

fun cond_text :: "cond \<Rightarrow> string" where
  "cond_text (NameILike i) = ''name ILIKE '' @ param i"
| "cond_text (EmailILike i) = ''email ILIKE '' @ param i"
| "cond_text (AgeGe i) = ''age >= '' @ param i"
| "cond_text (AgeLe i) = ''age <= '' @ param i"

fun set_text :: "set_field \<Rightarrow> string" where
  "set_text (SetName i) = ''name = '' @ param i"
| "set_text (SetEmail i) = ''email = '' @ param i"
| "set_text (SetAge i) = ''age = '' @ param i"
| "set_text SetUpdatedAt = ''updated_at = NOW()''"

definition where_clause :: "cond list \<Rightarrow> string" where
  "where_clause whereConditions =
     (if length whereConditions > 0 then ''WHERE '' @ join (map cond_text whereConditions) '' AND ''
      else [])"

text \<open>A line break of a template literal, followed by the indentation of the next line.\<close>

definition nl :: "nat \<Rightarrow> string" where
  "nl k = CHR 0x0A # replicate k CHR '' ''"

fun sql_text :: "stmt \<Rightarrow> string" where
  "sql_text InsertUser =
     nl 8 @ ''INSERT INTO users (name, email, age, created_at, updated_at)'' @
     nl 8 @ ''VALUES ($1, $2, $3, NOW(), NOW())'' @
     nl 8 @ ''RETURNING *'' @ nl 8"
| "sql_text SelectUserByEmail = ''SELECT * FROM users WHERE email = $1''"
| "sql_text SelectUserById = ''SELECT * FROM users WHERE id = $1''"
| "sql_text DeleteUserById = ''DELETE FROM users WHERE id = $1 RETURNING id''"
| "sql_text (CountUsers whereConditions) =
     ''SELECT COUNT(*) FROM users '' @ where_clause whereConditions"
| "sql_text (SelectUsers whereConditions sortBy sortOrder paramIndex) =
     nl 8 @ ''SELECT * FROM users'' @
     nl 8 @ where_clause whereConditions @
     nl 8 @ ''ORDER BY '' @ sortBy @ '' '' @ sortOrder @
     nl 8 @ ''LIMIT '' @ param paramIndex @ '' OFFSET '' @ param (paramIndex + 1) @ nl 8"
| "sql_text (UpdateUser updateFields paramIndex) =
     nl 8 @ ''UPDATE users'' @
     nl 8 @ ''SET '' @ join (map set_text updateFields) '', '' @
     nl 8 @ ''WHERE id = '' @ param paramIndex @
     nl 8 @ ''RETURNING *'' @ nl 6"

subsection \<open>Bound parameters\<close>

text \<open>
  The driver sends every parameter as text and the server reads it at the type of its
  position; \<open>Inr None\<close> is NULL. At an integer position a number must be whole and a string
  must be an integer literal, and the value must lie in the range of the position's type:
  \<^verbatim>\<open>id SERIAL\<close> and \<^verbatim>\<open>age INTEGER\<close> are 32-bit integers, \<^verbatim>\<open>LIMIT\<close> and \<^verbatim>\<open>OFFSET\<close> take
  64-bit ones. At a text position the service binds only strings and NULL; a number there
  is answered with an error.
\<close>

datatype int_type = Int4 | Int8

definition int_in_range :: "int_type \<Rightarrow> int \<Rightarrow> bool" where
  "int_in_range ty k = (case ty of
       Int4 \<Rightarrow> - 2147483648 \<le> k \<and> k \<le> 2147483647
     | Int8 \<Rightarrow> - 9223372036854775808 \<le> k \<and> k \<le> 9223372036854775807)"

definition ranged :: "int_type \<Rightarrow> int \<Rightarrow> db_error + int option" where
  "ranged ty k = (if int_in_range ty k then Inr (Some k) else Inl NumericValueOutOfRange)"

definition is_digit :: "char \<Rightarrow> bool" where
  "is_digit c = (48 \<le> (of_char c :: nat) \<and> (of_char c :: nat) \<le> 57)"

definition int_literal :: "string \<Rightarrow> int option" where
  "int_literal s =
     (let t = trim s;
          neg = starts_with t ''-'';
          ds = (if starts_with t ''-'' \<or> starts_with t ''+'' then tl t else t)
      in if ds \<noteq> [] \<and> list_all is_digit ds then
           (case parse_digits 10 ds None of
              None \<Rightarrow> None
            | Some n \<Rightarrow> Some (if neg then - int n else int n))
         else None)"

definition as_integer :: "int_type \<Rightarrow> sqlval \<Rightarrow> db_error + int option" where
  "as_integer ty v = (case v of
       SqlNull \<Rightarrow> Inr None
     | SqlNum n \<Rightarrow> (case n of
           NaN \<Rightarrow> Inl InvalidParameter
         | Fin r \<Rightarrow> if r = of_int \<lfloor>r\<rfloor> then ranged ty \<lfloor>r\<rfloor> else Inl InvalidParameter)
     | SqlStr s \<Rightarrow> (case int_literal s of
           None \<Rightarrow> Inl InvalidParameter
         | Some k \<Rightarrow> ranged ty k))"

definition as_text :: "sqlval \<Rightarrow> db_error + string option" where
  "as_text v = (case v of
       SqlNull \<Rightarrow> Inr None
     | SqlNum n \<Rightarrow> Inl InvalidParameter
     | SqlStr s \<Rightarrow> Inr (Some s))"

definition param_at :: "sqlval list \<Rightarrow> nat \<Rightarrow> sqlval option" where
  "param_at vs i = (if 1 \<le> i \<and> i \<le> length vs then Some (vs ! (i - 1)) else None)"

definition int_param :: "int_type \<Rightarrow> sqlval list \<Rightarrow> nat \<Rightarrow> db_error + int option" where
  "int_param ty vs i =
     (case param_at vs i of None \<Rightarrow> Inl InvalidParameter | Some v \<Rightarrow> as_integer ty v)"

definition text_param :: "sqlval list \<Rightarrow> nat \<Rightarrow> db_error + string option" where
  "text_param vs i = (case param_at vs i of None \<Rightarrow> Inl InvalidParameter | Some v \<Rightarrow> as_text v)"

subsection \<open>The table's constraints\<close>

text \<open>
  \<^verbatim>\<open>name VARCHAR(100) NOT NULL CHECK (LENGTH(name) >= 2)\<close>,
  \<^verbatim>\<open>email VARCHAR(255) NOT NULL UNIQUE\<close>,
  \<^verbatim>\<open>age INTEGER CHECK (age >= 0 AND age <= 100)\<close>.
\<close>

definition row_violation :: "user \<Rightarrow> db_error option" where
  "row_violation u =
     (if length (u_name u) > 100 \<or> length (u_email u) > 255 then Some StringTooLong
      else if length (u_name u) < 2 then Some CheckViolation
      else (case u_age u of
              None \<Rightarrow> None
            | Some a \<Rightarrow> if 0 \<le> a \<and> a \<le> 100 then None else Some CheckViolation))"

fun first_violation :: "user list \<Rightarrow> db_error option" where
  "first_violation [] = None"
| "first_violation (u # us) =
     (case row_violation u of None \<Rightarrow> first_violation us | Some e \<Rightarrow> Some e)"

subsection \<open>INSERT\<close>

text \<open>
  The new row takes the next value of the sequence and the clock's time for both
  timestamps. A value of the sequence is used up even when a constraint rejects the row.
  The sequence of a \<^verbatim>\<open>SERIAL\<close> column ends with the 32-bit integers.
\<close>

definition exec_insert :: "db \<Rightarrow> sqlval list \<Rightarrow> (db_error + qresult) \<times> db" where
  "exec_insert db vs =
     (case text_param vs 1 of Inl e \<Rightarrow> (Inl e, db) | Inr name \<Rightarrow>
      (case text_param vs 2 of Inl e \<Rightarrow> (Inl e, db) | Inr email \<Rightarrow>
       (case int_param Int4 vs 3 of Inl e \<Rightarrow> (Inl e, db) | Inr age \<Rightarrow>
        if int_in_range Int4 (int (db_next_id db)) then
        (let db1 = db\<lparr>db_next_id := db_next_id db + 1\<rparr> in
         case name of None \<Rightarrow> (Inl NotNullViolation, db1) | Some n \<Rightarrow>
         (case email of None \<Rightarrow> (Inl NotNullViolation, db1) | Some e \<Rightarrow>
          (let row = \<lparr>u_id = db_next_id db, u_name = n, u_email = e, u_age = age,
                      u_created_at = db_now db, u_updated_at = db_now db\<rparr>
           in case row_violation row of
                Some err \<Rightarrow> (Inl err, db1)
              | None \<Rightarrow>
                  if e \<in> set (map u_email (db_rows db)) then (Inl UniqueViolation, db1)
                  else (Inr (Rows [row]), db1\<lparr>db_rows := db_rows db @ [row]\<rparr>))))
        else (Inl NumericValueOutOfRange, db))))"

subsection \<open>SELECT and DELETE by key\<close>

definition exec_select_by_email :: "db \<Rightarrow> sqlval list \<Rightarrow> db_error + qresult" where
  "exec_select_by_email db vs =
     (case text_param vs 1 of
        Inl e \<Rightarrow> Inl e
      | Inr None \<Rightarrow> Inr (Rows [])
      | Inr (Some s) \<Rightarrow> Inr (Rows (filter (\<lambda>u. u_email u = s) (db_rows db))))"

definition exec_select_by_id :: "db \<Rightarrow> sqlval list \<Rightarrow> db_error + qresult" where
  "exec_select_by_id db vs =
     (case int_param Int4 vs 1 of
        Inl e \<Rightarrow> Inl e
      | Inr None \<Rightarrow> Inr (Rows [])
      | Inr (Some k) \<Rightarrow> Inr (Rows (filter (\<lambda>u. int (u_id u) = k) (db_rows db))))"

definition exec_delete :: "db \<Rightarrow> sqlval list \<Rightarrow> (db_error + qresult) \<times> db" where
  "exec_delete db vs =
     (case int_param Int4 vs 1 of
        Inl e \<Rightarrow> (Inl e, db)
      | Inr None \<Rightarrow> (Inr (Ids []), db)
      | Inr (Some k) \<Rightarrow>
          (Inr (Ids (map u_id (filter (\<lambda>u. int (u_id u) = k) (db_rows db)))),
           db\<lparr>db_rows := filter (\<lambda>u. int (u_id u) \<noteq> k) (db_rows db)\<rparr>))"

subsection \<open>The list query\<close>

text \<open>
  \<^verbatim>\<open>ILIKE\<close>: \<^verbatim>\<open>%\<close> matches any run of characters, \<^verbatim>\<open>_\<close> one character, a backslash takes
  the next character of the pattern literally; letters match without regard to case.
  (PostgreSQL rejects a pattern that ends in a lone backslash; the patterns of the service
  end in \<^verbatim>\<open>%\<close>.)
\<close>

fun like_match :: "string \<Rightarrow> string \<Rightarrow> bool" where
  "like_match [] s = (s = [])"
| "like_match (p # ps) [] = (p = CHR ''%'' \<and> like_match ps [])"
| "like_match (p # ps) (c # cs) =
     (if p = CHR ''%'' then like_match ps (c # cs) \<or> like_match (p # ps) cs
      else if p = CHR ''_'' then like_match ps cs
      else if p = CHR 0x5C then (case ps of [] \<Rightarrow> False | q # qs \<Rightarrow> q = c \<and> like_match qs cs)
      else p = c \<and> like_match ps cs)"

definition ilike :: "string \<Rightarrow> string \<Rightarrow> bool" where
  "ilike pat s = like_match (toLowerCase pat) (toLowerCase s)"

fun cond_ok :: "sqlval list \<Rightarrow> cond \<Rightarrow> bool" where
  "cond_ok vs (NameILike i) = (case text_param vs i of Inl e \<Rightarrow> False | Inr t \<Rightarrow> True)"
| "cond_ok vs (EmailILike i) = (case text_param vs i of Inl e \<Rightarrow> False | Inr t \<Rightarrow> True)"
| "cond_ok vs (AgeGe i) = (case int_param Int4 vs i of Inl e \<Rightarrow> False | Inr k \<Rightarrow> True)"
| "cond_ok vs (AgeLe i) = (case int_param Int4 vs i of Inl e \<Rightarrow> False | Inr k \<Rightarrow> True)"

text \<open>A comparison with NULL is not true.\<close>

fun cond_holds :: "sqlval list \<Rightarrow> user \<Rightarrow> cond \<Rightarrow> bool" where
  "cond_holds vs u (NameILike i) =
     (case text_param vs i of Inr (Some pat) \<Rightarrow> ilike pat (u_name u) | _ \<Rightarrow> False)"
| "cond_holds vs u (EmailILike i) =
     (case text_param vs i of Inr (Some pat) \<Rightarrow> ilike pat (u_email u) | _ \<Rightarrow> False)"
| "cond_holds vs u (AgeGe i) =
     (case int_param Int4 vs i of
        Inr (Some k) \<Rightarrow> (case u_age u of None \<Rightarrow> False | Some a \<Rightarrow> k \<le> a)
      | _ \<Rightarrow> False)"
| "cond_holds vs u (AgeLe i) =
     (case int_param Int4 vs i of
        Inr (Some k) \<Rightarrow> (case u_age u of None \<Rightarrow> False | Some a \<Rightarrow> a \<le> k)
      | _ \<Rightarrow> False)"

definition matching :: "sqlval list \<Rightarrow> cond list \<Rightarrow> user list \<Rightarrow> user list" where
  "matching vs conds rows = filter (\<lambda>u. list_all (cond_holds vs u) conds) rows"

text \<open>
  \<^verbatim>\<open>ORDER BY\<close> with the text the service puts there. One column of the table and one of
  \<^verbatim>\<open>ASC\<close>, \<^verbatim>\<open>DESC\<close> is given its meaning (strings by code point; NULL ages last when
  ascending, first when descending). Any other text is answered with an error: what
  PostgreSQL makes of it is not modelled.
\<close>

definition order_asc :: "string \<Rightarrow> user list \<Rightarrow> user list option" where
  "order_asc col rows =
     (if col = ''id'' then Some (sort_key u_id rows)
      else if col = ''name'' then Some (sort_key u_name rows)
      else if col = ''email'' then Some (sort_key u_email rows)
      else if col = ''age'' then
        Some (sort_key (\<lambda>u. case u_age u of None \<Rightarrow> 0 | Some a \<Rightarrow> a)
                (filter (\<lambda>u. u_age u \<noteq> None) rows) @
              filter (\<lambda>u. u_age u = None) rows)
      else if col = ''created_at'' then Some (sort_key u_created_at rows)
      else if col = ''updated_at'' then Some (sort_key u_updated_at rows)
      else None)"

definition order_rows :: "string \<Rightarrow> string \<Rightarrow> user list \<Rightarrow> db_error + user list" where
  "order_rows sortBy sortOrder rows =
     (case order_asc sortBy rows of
        None \<Rightarrow> Inl UndefinedColumn
      | Some asc \<Rightarrow>
          if sortOrder = ''ASC'' then Inr asc
          else if sortOrder = ''DESC'' then Inr (rev asc)
          else Inl SyntaxError)"

definition exec_count :: "db \<Rightarrow> cond list \<Rightarrow> sqlval list \<Rightarrow> db_error + qresult" where
  "exec_count db conds vs =
     (if list_all (cond_ok vs) conds then Inr (Count (length (matching vs conds (db_rows db))))
      else Inl InvalidParameter)"

text \<open>\<^verbatim>\<open>LIMIT NULL\<close> is no limit, \<^verbatim>\<open>OFFSET NULL\<close> is no offset; neither may be negative.\<close>

definition limit_rows :: "int option \<Rightarrow> user list \<Rightarrow> user list" where
  "limit_rows lmt rows = (case lmt of None \<Rightarrow> rows | Some n \<Rightarrow> take (nat n) rows)"

definition offset_rows :: "int option \<Rightarrow> user list \<Rightarrow> user list" where
  "offset_rows ofs rows = (case ofs of None \<Rightarrow> rows | Some n \<Rightarrow> drop (nat n) rows)"

definition is_negative :: "int option \<Rightarrow> bool" where
  "is_negative n = (case n of None \<Rightarrow> False | Some k \<Rightarrow> k < 0)"

definition exec_select_users ::
  "db \<Rightarrow> cond list \<Rightarrow> string \<Rightarrow> string \<Rightarrow> nat \<Rightarrow> sqlval list \<Rightarrow> db_error + qresult" where
  "exec_select_users db conds sortBy sortOrder k vs =
     (if list_all (cond_ok vs) conds then
        (case int_param Int8 vs k of Inl e \<Rightarrow> Inl e | Inr lmt \<Rightarrow>
         (case int_param Int8 vs (k + 1) of Inl e \<Rightarrow> Inl e | Inr ofs \<Rightarrow>
          if is_negative lmt \<or> is_negative ofs then Inl InvalidParameter
          else (case order_rows sortBy sortOrder (matching vs conds (db_rows db)) of
                  Inl e \<Rightarrow> Inl e
                | Inr ordered \<Rightarrow> Inr (Rows (limit_rows lmt (offset_rows ofs ordered))))))
      else Inl InvalidParameter)"

subsection \<open>UPDATE\<close>

fun set_ok :: "sqlval list \<Rightarrow> set_field \<Rightarrow> bool" where
  "set_ok vs (SetName i) = (case text_param vs i of Inl e \<Rightarrow> False | Inr t \<Rightarrow> True)"
| "set_ok vs (SetEmail i) = (case text_param vs i of Inl e \<Rightarrow> False | Inr t \<Rightarrow> True)"
| "set_ok vs (SetAge i) = (case int_param Int4 vs i of Inl e \<Rightarrow> False | Inr k \<Rightarrow> True)"
| "set_ok vs SetUpdatedAt = True"

text \<open>One assignment on one row; \<open>None\<close> when it would store NULL in a NOT NULL column.\<close>

fun apply_set :: "sqlval list \<Rightarrow> nat \<Rightarrow> user \<Rightarrow> set_field \<Rightarrow> user option" where
  "apply_set vs now u (SetName i) =
     (case text_param vs i of Inr (Some s) \<Rightarrow> Some (u\<lparr>u_name := s\<rparr>) | _ \<Rightarrow> None)"
| "apply_set vs now u (SetEmail i) =
     (case text_param vs i of Inr (Some s) \<Rightarrow> Some (u\<lparr>u_email := s\<rparr>) | _ \<Rightarrow> None)"
| "apply_set vs now u (SetAge i) =
     (case int_param Int4 vs i of Inr a \<Rightarrow> Some (u\<lparr>u_age := a\<rparr>) | _ \<Rightarrow> None)"
| "apply_set vs now u SetUpdatedAt = Some (u\<lparr>u_updated_at := now\<rparr>)"

fun apply_sets :: "sqlval list \<Rightarrow> nat \<Rightarrow> set_field list \<Rightarrow> user \<Rightarrow> user option" where
  "apply_sets vs now [] u = Some u"
| "apply_sets vs now (f # fs) u =
     (case apply_set vs now u f of None \<Rightarrow> None | Some u' \<Rightarrow> apply_sets vs now fs u')"

text \<open>
  The new version of a row: the assignments in order, then the trigger
  \<^verbatim>\<open>updated_users_updated_at\<close>, which sets \<^verbatim>\<open>updated_at\<close> to \<^verbatim>\<open>NOW()\<close> before every update.
\<close>

definition new_version :: "sqlval list \<Rightarrow> nat \<Rightarrow> set_field list \<Rightarrow> user \<Rightarrow> user option" where
  "new_version vs now sets u =
     (case apply_sets vs now sets u of
        None \<Rightarrow> None
      | Some u' \<Rightarrow> Some (u'\<lparr>u_updated_at := now\<rparr>))"

text \<open>The table after the update and the rows it changed, or \<open>None\<close> on a NULL.\<close>

fun update_rows :: "(user \<Rightarrow> bool) \<Rightarrow> (user \<Rightarrow> user option) \<Rightarrow> user list \<Rightarrow>
    (user list \<times> user list) option" where
  "update_rows hit f [] = Some ([], [])"
| "update_rows hit f (u # us) =
     (case update_rows hit f us of
        None \<Rightarrow> None
      | Some (table, changed) \<Rightarrow>
          if hit u then (case f u of None \<Rightarrow> None | Some u' \<Rightarrow> Some (u' # table, u' # changed))
          else Some (u # table, changed))"

definition exec_update :: "db \<Rightarrow> set_field list \<Rightarrow> nat \<Rightarrow> sqlval list \<Rightarrow> (db_error + qresult) \<times> db" where
  "exec_update db sets k vs =
     (if list_all (set_ok vs) sets then
        (case int_param Int4 vs k of
           Inl e \<Rightarrow> (Inl e, db)
         | Inr None \<Rightarrow> (Inr (Rows []), db)
         | Inr (Some i) \<Rightarrow>
             (case update_rows (\<lambda>u. int (u_id u) = i) (new_version vs (db_now db) sets) (db_rows db) of
                None \<Rightarrow> (Inl NotNullViolation, db)
              | Some (table, changed) \<Rightarrow>
                  (case first_violation changed of
                     Some e \<Rightarrow> (Inl e, db)
                   | None \<Rightarrow>
                       if distinct (map u_email table) then (Inr (Rows changed), db\<lparr>db_rows := table\<rparr>)
                       else (Inl UniqueViolation, db))))
      else (Inl InvalidParameter, db))"

subsection \<open>Executing a statement\<close>

fun exec :: "db \<Rightarrow> stmt \<Rightarrow> sqlval list \<Rightarrow> (db_error + qresult) \<times> db" where
  "exec db InsertUser vs = exec_insert db vs"
| "exec db SelectUserByEmail vs = (exec_select_by_email db vs, db)"
| "exec db SelectUserById vs = (exec_select_by_id db vs, db)"
| "exec db DeleteUserById vs = exec_delete db vs"
| "exec db (CountUsers conds) vs = (exec_count db conds vs, db)"
| "exec db (SelectUsers conds sortBy sortOrder k) vs =
     (exec_select_users db conds sortBy sortOrder k vs, db)"
| "exec db (UpdateUser sets k) vs = exec_update db sets k vs"

text \<open>
  \<^verbatim>\<open>DatabaseConnection.query\<close>: runs the statement on the pool and returns its result or
  rethrows its error; either way the statement and its parameters have gone to the server.
\<close>

definition db_query :: "db \<Rightarrow> stmt \<Rightarrow> sqlval list \<Rightarrow> (db_error + qresult) \<times> db" where
  "db_query db st vs =
     (case exec db st vs of
        (res, db') \<Rightarrow> (res, db'\<lparr>db_log := db_log db' @ [(sql_text st, vs)]\<rparr>))"

text \<open>\<^verbatim>\<open>result.rows\<close> of a statement that returns rows of the table.\<close>

definition result_rows :: "qresult \<Rightarrow> user list" where
  "result_rows r = (case r of Rows us \<Rightarrow> us | Ids ks \<Rightarrow> [] | Count n \<Rightarrow> [])"

section \<open>UserService\<close>

text \<open>\<^verbatim>\<open>throw new Error(message)\<close>\<close>

datatype js_error = Error string

definition error_message :: "js_error \<Rightarrow> string" where
  "error_message e = (case e of Error m \<Rightarrow> m)"

text \<open>Truthiness of a string that may be \<^verbatim>\<open>undefined\<close>, and \<^verbatim>\<open>a || b\<close>.\<close>

definition str_truthy :: "string option \<Rightarrow> bool" where
  "str_truthy s = (case s of None \<Rightarrow> False | Some t \<Rightarrow> t \<noteq> [])"

definition str_or :: "string option \<Rightarrow> string \<Rightarrow> string" where
  "str_or s d = (case s of None \<Rightarrow> d | Some t \<Rightarrow> if t \<noteq> [] then t else d)"

definition num_or :: "'a::zero jsnum option \<Rightarrow> 'a jsnum \<Rightarrow> 'a jsnum" where
  "num_or n d = (case n of None \<Rightarrow> d | Some m \<Rightarrow> if num_truthy m then m else d)"

definition num_sub :: "'a::minus jsnum \<Rightarrow> 'a jsnum \<Rightarrow> 'a jsnum" where
  "num_sub a b = (case a of NaN \<Rightarrow> NaN | Fin x \<Rightarrow> (case b of NaN \<Rightarrow> NaN | Fin y \<Rightarrow> Fin (x - y)))"

definition num_mul :: "'a::times jsnum \<Rightarrow> 'a jsnum \<Rightarrow> 'a jsnum" where
  "num_mul a b = (case a of NaN \<Rightarrow> NaN | Fin x \<Rightarrow> (case b of NaN \<Rightarrow> NaN | Fin y \<Rightarrow> Fin (x * y)))"

text \<open>\<^verbatim>\<open>Math.ceil(total / limit)\<close>; the service divides by a limit between 1 and 100.\<close>

definition Math_ceil_div :: "int jsnum \<Rightarrow> int jsnum \<Rightarrow> int jsnum" where
  "Math_ceil_div a b =
     (case a of NaN \<Rightarrow> NaN | Fin x \<Rightarrow>
       (case b of NaN \<Rightarrow> NaN | Fin y \<Rightarrow>
         if y = 0 then NaN else Fin \<lceil>real_of_int x / real_of_int y\<rceil>))"

text \<open>A value bound as a parameter; the driver sends \<^verbatim>\<open>undefined\<close> as NULL.\<close>

definition str_value :: "string option \<Rightarrow> sqlval" where
  "str_value s = (case s of None \<Rightarrow> SqlNull | Some t \<Rightarrow> SqlStr t)"

definition num_value :: "real jsnum option \<Rightarrow> sqlval" where
  "num_value n = (case n of None \<Rightarrow> SqlNull | Some m \<Rightarrow> SqlNum m)"

text \<open>\<^verbatim>\<open>sanitizedData.age || null\<close>\<close>

definition age_or_null :: "real jsnum option \<Rightarrow> sqlval" where
  "age_or_null n = (case n of None \<Rightarrow> SqlNull | Some m \<Rightarrow> if num_truthy m then SqlNum m else SqlNull)"

text \<open>\<^verbatim>\<open>!id || id <= 0\<close>\<close>

definition invalid_user_id :: "int jsnum \<Rightarrow> bool" where
  "invalid_user_id userId = (\<not> num_truthy userId \<or> num_le userId (Fin 0))"

subsection \<open>findUserByEmail\<close>

definition findUserByEmail :: "db \<Rightarrow> string \<Rightarrow> user option \<times> db" where
  "findUserByEmail db email =
     (case db_query db SelectUserByEmail [SqlStr email] of
        (Inl e, db') \<Rightarrow> (None, db')
      | (Inr result, db') \<Rightarrow>
          (case result_rows result of [] \<Rightarrow> (None, db') | u # us \<Rightarrow> (Some u, db')))"

subsection \<open>createUser\<close>

definition createUser :: "db \<Rightarrow> user_data \<Rightarrow> (js_error + user_response) \<times> db" where
  "createUser db userData =
     (let sanitizedData = sanitizeUserData userData;
          validationErrors = validateUserData sanitizedData False
      in if length validationErrors > 0 then
           (Inl (Error (''Validation failed: '' @ join validationErrors '', '')), db)
         else
           (case findUserByEmail db (str_or (field_get (d_email sanitizedData)) []) of
              (Some existingUser, db1) \<Rightarrow> (Inl (Error ''User with this email already exists''), db1)
            | (None, db1) \<Rightarrow>
                (case db_query db1 InsertUser
                        [str_value (field_get (d_name sanitizedData)),
                         str_value (field_get (d_email sanitizedData)),
                         age_or_null (field_get (d_age sanitizedData))] of
                   (Inl e, db2) \<Rightarrow> (Inl (Error ''Failed to create user''), db2)
                 | (Inr result, db2) \<Rightarrow>
                     (case result_rows result of
                        [] \<Rightarrow> (Inl (Error ''Failed to create user''), db2)
                      | newUser # us \<Rightarrow> (Inr (userToResponse newUser), db2)))))"

subsection \<open>getUsers\<close>

definition getUsers_page :: "user_query_params \<Rightarrow> int jsnum" where
  "getUsers_page queryParams = Math_max (Fin 1) (num_or (q_page queryParams) (Fin DEFAULT_PAGE))"

definition getUsers_limit :: "user_query_params \<Rightarrow> int jsnum" where
  "getUsers_limit queryParams =
     Math_min (Fin MAX_LIMIT) (Math_max (Fin 1) (num_or (q_limit queryParams) (Fin DEFAULT_LIMIT)))"

definition getUsers_offset :: "user_query_params \<Rightarrow> int jsnum" where
  "getUsers_offset queryParams =
     num_mul (num_sub (getUsers_page queryParams) (Fin 1)) (getUsers_limit queryParams)"

text \<open>
  The four \<^verbatim>\<open>if\<close> blocks that fill \<^verbatim>\<open>whereConditions\<close> and \<^verbatim>\<open>queryValues\<close> and count
  \<^verbatim>\<open>paramIndex\<close> up. All four push the template literal \<^verbatim>\<open>`%${value}%`\<close> as the value.
\<close>

type_synonym where_state = "cond list \<times> sqlval list \<times> nat"

definition push_name :: "user_query_params \<Rightarrow> where_state \<Rightarrow> where_state" where
  "push_name queryParams st =
     (case st of (whereConditions, queryValues, paramIndex) \<Rightarrow>
        (case q_name queryParams of
           None \<Rightarrow> st
         | Some name \<Rightarrow>
             if name \<noteq> [] then
               (whereConditions @ [NameILike paramIndex],
                queryValues @ [SqlStr (''%'' @ name @ ''%'')], paramIndex + 1)
             else st))"

definition push_email :: "user_query_params \<Rightarrow> where_state \<Rightarrow> where_state" where
  "push_email queryParams st =
     (case st of (whereConditions, queryValues, paramIndex) \<Rightarrow>
        (case q_email queryParams of
           None \<Rightarrow> st
         | Some email \<Rightarrow>
             if email \<noteq> [] then
               (whereConditions @ [EmailILike paramIndex],
                queryValues @ [SqlStr (''%'' @ email @ ''%'')], paramIndex + 1)
             else st))"

definition push_minAge :: "user_query_params \<Rightarrow> where_state \<Rightarrow> where_state" where
  "push_minAge queryParams st =
     (case st of (whereConditions, queryValues, paramIndex) \<Rightarrow>
        (case q_minAge queryParams of
           None \<Rightarrow> st
         | Some minAge \<Rightarrow>
             (whereConditions @ [AgeGe paramIndex],
              queryValues @ [SqlStr (''%'' @ int_to_string minAge @ ''%'')], paramIndex + 1)))"

definition push_maxAge :: "user_query_params \<Rightarrow> where_state \<Rightarrow> where_state" where
  "push_maxAge queryParams st =
     (case st of (whereConditions, queryValues, paramIndex) \<Rightarrow>
        (case q_maxAge queryParams of
           None \<Rightarrow> st
         | Some maxAge \<Rightarrow>
             (whereConditions @ [AgeLe paramIndex],
              queryValues @ [SqlStr (''%'' @ int_to_string maxAge @ ''%'')], paramIndex + 1)))"

definition getUsers_where :: "user_query_params \<Rightarrow> where_state" where
  "getUsers_where queryParams =
     push_maxAge queryParams (push_minAge queryParams (push_email queryParams
       (push_name queryParams ([], [], 1))))"

text \<open>The two statements of \<^verbatim>\<open>getUsers\<close> with the values bound to each.\<close>

definition getUsers_count :: "user_query_params \<Rightarrow> stmt \<times> sqlval list" where
  "getUsers_count queryParams =
     (case getUsers_where queryParams of
        (whereConditions, queryValues, paramIndex) \<Rightarrow> (CountUsers whereConditions, queryValues))"

definition getUsers_select :: "user_query_params \<Rightarrow> stmt \<times> sqlval list" where
  "getUsers_select queryParams =
     (case getUsers_where queryParams of
        (whereConditions, queryValues, paramIndex) \<Rightarrow>
          (SelectUsers whereConditions
             (str_or (q_sortBy queryParams) ''created_at'')
             (str_or (q_sortOrder queryParams) ''DESC'') paramIndex,
           queryValues @ [SqlNum (num_real (getUsers_limit queryParams)),
                          SqlNum (num_real (getUsers_offset queryParams))]))"

text \<open>
  \<^verbatim>\<open>parseInt(countResult.rows[0].count)\<close>: the server sends the count as its decimal text,
  which \<^verbatim>\<open>parseInt\<close> reads back.
\<close>

definition result_count :: "qresult \<Rightarrow> int jsnum" where
  "result_count r = (case r of Count n \<Rightarrow> Fin (int n) | Rows us \<Rightarrow> NaN | Ids ks \<Rightarrow> NaN)"

definition getUsers :: "db \<Rightarrow> user_query_params \<Rightarrow> (js_error + paginated_users_response) \<times> db" where
  "getUsers db queryParams =
     (let page = getUsers_page queryParams;
          limit = getUsers_limit queryParams
      in case db_query db (fst (getUsers_count queryParams)) (snd (getUsers_count queryParams)) of
           (Inl e, db1) \<Rightarrow> (Inl (Error ''Failed to fetch users''), db1)
         | (Inr countResult, db1) \<Rightarrow>
             (case db_query db1 (fst (getUsers_select queryParams)) (snd (getUsers_select queryParams)) of
                (Inl e, db2) \<Rightarrow> (Inl (Error ''Failed to fetch users''), db2)
              | (Inr usersResult, db2) \<Rightarrow>
                  (let total = result_count countResult;
                       totalPages = Math_ceil_div total limit
                   in (Inr \<lparr>pr_users = map userToResponse (result_rows usersResult),
                            pr_pagination =
                              \<lparr>p_page = page, p_limit = limit, p_total = total,
                               p_totalPages = totalPages,
                               p_hasNext = num_lt page totalPages,
                               p_hasPrev = num_gt page (Fin 1)\<rparr>\<rparr>,
                       db2))))"

subsection \<open>getUserById\<close>

definition getUserById :: "db \<Rightarrow> int jsnum \<Rightarrow> (js_error + user_response option) \<times> db" where
  "getUserById db userId =
     (if invalid_user_id userId then (Inl (Error ''Invalid user ID''), db)
      else
        (case db_query db SelectUserById [SqlNum (num_real userId)] of
           (Inl e, db1) \<Rightarrow> (Inl (Error ''Failed to fetch user''), db1)
         | (Inr result, db1) \<Rightarrow>
             (case result_rows result of
                [] \<Rightarrow> (Inr None, db1)
              | u # us \<Rightarrow> (Inr (Some (userToResponse u)), db1))))"

subsection \<open>updateUser\<close>

text \<open>
  The SET clause: one assignment and one value for each of \<^verbatim>\<open>name\<close>, \<^verbatim>\<open>email\<close>, \<^verbatim>\<open>age\<close>
  that is not \<^verbatim>\<open>undefined\<close> in the sanitized data, then \<^verbatim>\<open>updated_at = NOW()\<close>.
\<close>

type_synonym set_state = "set_field list \<times> sqlval list \<times> nat"

definition push_set_name :: "user_data \<Rightarrow> set_state \<Rightarrow> set_state" where
  "push_set_name sanitizedData st =
     (case st of (updateFields, vals, paramIndex) \<Rightarrow>
        (case field_get (d_name sanitizedData) of
           None \<Rightarrow> st
         | Some name \<Rightarrow> (updateFields @ [SetName paramIndex], vals @ [SqlStr name], paramIndex + 1)))"

definition push_set_email :: "user_data \<Rightarrow> set_state \<Rightarrow> set_state" where
  "push_set_email sanitizedData st =
     (case st of (updateFields, vals, paramIndex) \<Rightarrow>
        (case field_get (d_email sanitizedData) of
           None \<Rightarrow> st
         | Some email \<Rightarrow> (updateFields @ [SetEmail paramIndex], vals @ [SqlStr email], paramIndex + 1)))"

definition push_set_age :: "user_data \<Rightarrow> set_state \<Rightarrow> set_state" where
  "push_set_age sanitizedData st =
     (case st of (updateFields, vals, paramIndex) \<Rightarrow>
        (case field_get (d_age sanitizedData) of
           None \<Rightarrow> st
         | Some age \<Rightarrow> (updateFields @ [SetAge paramIndex], vals @ [SqlNum age], paramIndex + 1)))"

definition updateUser_set :: "user_data \<Rightarrow> set_state" where
  "updateUser_set sanitizedData =
     (case push_set_age sanitizedData (push_set_email sanitizedData
             (push_set_name sanitizedData ([], [], 1))) of
        (updateFields, vals, paramIndex) \<Rightarrow> (updateFields @ [SetUpdatedAt], vals, paramIndex))"

text \<open>
  \<^verbatim>\<open>sanitizedData.email && sanitizedData.email !== existingUser.email\<close>, and then whether
  \<^verbatim>\<open>findUserByEmail\<close> finds a user.
\<close>

definition email_taken :: "db \<Rightarrow> user_data \<Rightarrow> user_response \<Rightarrow> bool \<times> db" where
  "email_taken db sanitizedData existingUser =
     (case field_get (d_email sanitizedData) of
        None \<Rightarrow> (False, db)
      | Some email \<Rightarrow>
          if email \<noteq> [] \<and> email \<noteq> r_email existingUser then
            (case findUserByEmail db email of
               (None, db1) \<Rightarrow> (False, db1)
             | (Some emailExists, db1) \<Rightarrow> (True, db1))
          else (False, db))"

definition updateUser :: "db \<Rightarrow> int jsnum \<Rightarrow> user_data \<Rightarrow> (js_error + user_response option) \<times> db" where
  "updateUser db userId updateData =
     (if invalid_user_id userId then (Inl (Error ''Invalid user ID''), db)
      else
        (let sanitizedData = sanitizeUserData updateData;
             validationErrors = validateUserData sanitizedData True
         in if length validationErrors > 0 then
              (Inl (Error (''Validation failed: '' @ join validationErrors '', '')), db)
            else
              (case getUserById db userId of
                 (Inl e, db1) \<Rightarrow> (Inl e, db1)
               | (Inr None, db1) \<Rightarrow> (Inr None, db1)
               | (Inr (Some existingUser), db1) \<Rightarrow>
                   (case email_taken db1 sanitizedData existingUser of
                      (True, db2) \<Rightarrow> (Inl (Error ''User with this email already exists''), db2)
                    | (False, db2) \<Rightarrow>
                        (case updateUser_set sanitizedData of
                           (updateFields, vals, paramIndex) \<Rightarrow>
                             (case db_query db2 (UpdateUser updateFields paramIndex)
                                     (vals @ [SqlNum (num_real userId)]) of
                                (Inl e, db3) \<Rightarrow> (Inl (Error ''Failed to update user''), db3)
                              | (Inr result, db3) \<Rightarrow>
                                  (case result_rows result of
                                     [] \<Rightarrow> (Inr None, db3)
                                   | updatedUser # us \<Rightarrow>
                                       (Inr (Some (userToResponse updatedUser)), db3))))))))"

subsection \<open>deleteUser\<close>

text \<open>\<^verbatim>\<open>result.rows.length\<close> of the DELETE, which returns the ids it removed.\<close>

definition result_length :: "qresult \<Rightarrow> nat" where
  "result_length r = (case r of Rows us \<Rightarrow> length us | Ids ks \<Rightarrow> length ks | Count n \<Rightarrow> 1)"

definition deleteUser :: "db \<Rightarrow> int jsnum \<Rightarrow> (js_error + bool) \<times> db" where
  "deleteUser db userId =
     (if invalid_user_id userId then (Inl (Error ''Invalid user ID''), db)
      else
        (case db_query db DeleteUserById [SqlNum (num_real userId)] of
           (Inl e, db1) \<Rightarrow> (Inl (Error ''Failed to delete user''), db1)
         | (Inr result, db1) \<Rightarrow>
             if result_length result = 0 then (Inr False, db1) else (Inr True, db1)))"

section \<open>The routes: routes/userRoutes.ts\<close>

text \<open>
  What a handler sends: \<^verbatim>\<open>res.status(...).json({success, message, data | error | errors})\<close>.
\<close>

record 'd response =
  res_status :: nat
  res_success :: bool
  res_message :: string
  res_error :: "string option"
  res_errors :: "string list option"
  res_data :: "'d option"

definition send_data :: "nat \<Rightarrow> string \<Rightarrow> 'd \<Rightarrow> 'd response" where
  "send_data code msg d =
     \<lparr>res_status = code, res_success = True, res_message = msg, res_error = None,
      res_errors = None, res_data = Some d\<rparr>"

definition send_error :: "nat \<Rightarrow> string \<Rightarrow> string \<Rightarrow> 'd response" where
  "send_error code msg err =
     \<lparr>res_status = code, res_success = False, res_message = msg, res_error = Some err,
      res_errors = None, res_data = None\<rparr>"

text \<open>\<^verbatim>\<open>isNaN(userId) || userId <= 0\<close>, the check of the three handlers with a path id.\<close>

definition bad_path_id :: "int jsnum \<Rightarrow> bool" where
  "bad_path_id userId = (isNaN userId \<or> num_le userId (Fin 0))"

subsection \<open>GET /users\<close>

text \<open>\<^verbatim>\<open>req.query\<close>: each parameter is a string or missing.\<close>

record raw_query =
  rq_page :: "string option"
  rq_limit :: "string option"
  rq_name :: "string option"
  rq_email :: "string option"
  rq_minAge :: "string option"
  rq_maxAge :: "string option"
  rq_sortBy :: "string option"
  rq_sortOrder :: "string option"

text \<open>\<^verbatim>\<open>req.query.k ? parseInt(req.query.k as string) : undefined\<close>\<close>

definition parse_opt :: "string option \<Rightarrow> int jsnum option" where
  "parse_opt s = (if str_truthy s then Some (parseInt (str_or s [])) else None)"

definition query_params :: "raw_query \<Rightarrow> user_query_params" where
  "query_params rq =
     \<lparr>q_page = parse_opt (rq_page rq), q_limit = parse_opt (rq_limit rq),
      q_name = rq_name rq, q_email = rq_email rq,
      q_minAge = parse_opt (rq_minAge rq), q_maxAge = parse_opt (rq_maxAge rq),
      q_sortBy = rq_sortBy rq, q_sortOrder = rq_sortOrder rq\<rparr>"

definition get_users_handler :: "db \<Rightarrow> raw_query \<Rightarrow> paginated_users_response response \<times> db" where
  "get_users_handler db rq =
     (case getUsers db (query_params rq) of
        (Inr result, db1) \<Rightarrow> (send_data 200 ''Users retrieved successfully'' result, db1)
      | (Inl err, db1) \<Rightarrow> (send_error 500 ''Internal server error'' (error_message err), db1))"

subsection \<open>POST /users\<close>

definition field_truthy :: "string field \<Rightarrow> bool" where
  "field_truthy f = str_truthy (field_get f)"

text \<open>\<^verbatim>\<open>!userData.name || !userData.email\<close>\<close>

definition missing_required :: "user_data \<Rightarrow> bool" where
  "missing_required userData =
     (\<not> field_truthy (d_name userData) \<or> \<not> field_truthy (d_email userData))"

definition missing_fields :: "user_data \<Rightarrow> string list" where
  "missing_fields userData =
     (if field_truthy (d_name userData) then [] else [''name'']) @
     (if field_truthy (d_email userData) then [] else [''email''])"

text \<open>The \<^verbatim>\<open>catch\<close> block of the POST and PUT handlers.\<close>

definition write_error_response :: "js_error \<Rightarrow> 'd response" where
  "write_error_response err =
     (if str_includes (error_message err) ''Validation failed'' then
        send_error 400 ''Validation failed'' (error_message err)
      else if str_includes (error_message err) ''already exists'' then
        send_error 409 ''User with this email already exists'' (error_message err)
      else send_error 500 ''Internal server error'' (error_message err))"

definition post_users_handler :: "db \<Rightarrow> user_data \<Rightarrow> user_response response \<times> db" where
  "post_users_handler db userData =
     (if missing_required userData then
        (\<lparr>res_status = 400, res_success = False, res_message = ''Name and email are required'',
          res_error = None, res_errors = Some (missing_fields userData), res_data = None\<rparr>, db)
      else
        (case createUser db userData of
           (Inr newUser, db1) \<Rightarrow> (send_data 201 ''User created successfully'' newUser, db1)
         | (Inl err, db1) \<Rightarrow> (write_error_response err, db1)))"

subsection \<open>GET /users/:id\<close>

definition get_user_handler :: "db \<Rightarrow> string \<Rightarrow> user_response response \<times> db" where
  "get_user_handler db id_param =
     (let userId = parseInt id_param
      in if bad_path_id userId then
           (send_error 400 ''Invalid user ID. Must be a positive integer.'' ''INVALID_USER_ID'', db)
         else
           (case getUserById db userId of
              (Inr None, db1) \<Rightarrow> (send_error 404 ''User not found'' ''USER_NOT_FOUND'', db1)
            | (Inr (Some u), db1) \<Rightarrow> (send_data 200 ''User retrieved successfully'' u, db1)
            | (Inl err, db1) \<Rightarrow>
                (send_error 500 ''Internal server error'' (error_message err), db1)))"

subsection \<open>PUT /users/:id\<close>

definition put_user_handler :: "db \<Rightarrow> string \<Rightarrow> user_data \<Rightarrow> user_response response \<times> db" where
  "put_user_handler db id_param updateData =
     (let userId = parseInt id_param
      in if bad_path_id userId then
           (send_error 400 ''Invalid user ID. Must be a positive integer.'' ''INVALID_USER_ID'', db)
         else if length (object_keys updateData) = 0 then
           (send_error 400 ''At least one field must be provided for update'' ''NO_UPDATE_FIELDS'', db)
         else
           (case updateUser db userId updateData of
              (Inr None, db1) \<Rightarrow> (send_error 404 ''User not found'' ''USER_NOT_FOUND'', db1)
            | (Inr (Some u), db1) \<Rightarrow> (send_data 200 ''User updated successfully'' u, db1)
            | (Inl err, db1) \<Rightarrow> (write_error_response err, db1)))"

subsection \<open>DELETE /users/:id\<close>

definition delete_user_handler :: "db \<Rightarrow> string \<Rightarrow> int jsnum response \<times> db" where
  "delete_user_handler db id_param =
     (let userId = parseInt id_param
      in if bad_path_id userId then
           (send_error 400 ''Invalid user ID. Must be a positive integer.'' ''INVALID_USER_ID'', db)
         else
           (case deleteUser db userId of
              (Inr deleted, db1) \<Rightarrow>
                if \<not> deleted then (send_error 404 ''User not found'' ''USER_NOT_FOUND'', db1)
                else (send_data 200 ''User deleted successfully'' userId, db1)
            | (Inl err, db1) \<Rightarrow>
                (send_error 500 ''Internal server error'' (error_message err), db1)))"

section \<open>Scenarios\<close>

text \<open>The table as the schema file leaves it: its three sample rows, inserted at time 0.\<close>

definition seeded_rows :: "user list" where
  "seeded_rows =
     [\<lparr>u_id = 1, u_name = ''John Doe'', u_email = ''john@john.com'', u_age = Some 30,
        u_created_at = 0, u_updated_at = 0\<rparr>,
      \<lparr>u_id = 2, u_name = ''Jane Smith'', u_email = ''jane@jane.com'', u_age = Some 25,
        u_created_at = 0, u_updated_at = 0\<rparr>,
      \<lparr>u_id = 3, u_name = ''Bob Bobertson'', u_email = ''bob@bob.com'', u_age = Some 35,
        u_created_at = 0, u_updated_at = 0\<rparr>]"

definition seeded_db :: db where
  "seeded_db = \<lparr>db_rows = seeded_rows, db_next_id = 4, db_now = 7, db_log = []\<rparr>"

text \<open>The request body \<^verbatim>\<open>{name: "Ann Lee", email: "ANN@Example.com ", age: 29}\<close>.\<close>

definition ann_lee :: user_data where
  "ann_lee = \<lparr>d_name = Val ''Ann Lee'', d_email = Val ''ANN@Example.com '', d_age = Val (Fin 29)\<rparr>"

text \<open>A request body whose email is the sample row's, but for case and a leading blank.\<close>

definition john_again :: user_data where
  "john_again =
     \<lparr>d_name = Val ''John Doe'', d_email = Val '' John@John.com'', d_age = Val (Fin 30)\<rparr>"

text \<open>The update body \<^verbatim>\<open>{name: " Jane Doe "}\<close>.\<close>

definition jane_rename :: user_data where
  "jane_rename = \<lparr>d_name = Val '' Jane Doe '', d_email = Absent, d_age = Absent\<rparr>"

text \<open>The list request with no parameter, and the one with \<^verbatim>\<open>minAge=30&maxAge=40&sortBy=age&sortOrder=ASC\<close>.\<close>

definition list_request :: user_query_params where
  "list_request =
     \<lparr>q_page = None, q_limit = None, q_name = None, q_email = None,
      q_minAge = None, q_maxAge = None, q_sortBy = None, q_sortOrder = None\<rparr>"

definition ages_30_40 :: user_query_params where
  "ages_30_40 =
     list_request\<lparr>q_minAge := Some (Fin 30), q_maxAge := Some (Fin 40),
                  q_sortBy := Some ''age'', q_sortOrder := Some ''ASC''\<rparr>"

text \<open>The query string \<^verbatim>\<open>?sortBy=age; DROP TABLE users --\<close> (URL-decoded), as \<^verbatim>\<open>req.query\<close>.\<close>

definition injection_query :: raw_query where
  "injection_query =
     \<lparr>rq_page = None, rq_limit = None, rq_name = None, rq_email = None,
      rq_minAge = None, rq_maxAge = None,
      rq_sortBy = Some ''age; DROP TABLE users --'', rq_sortOrder = None\<rparr>"

section \<open>The specification's wording\<close>

text \<open>
  Two readings of the specification, kept apart from the code above, to compare the code
  with. The limit as the specification words it: 10 when missing, otherwise clamped
  into 1..100.
\<close>

definition spec_limit :: "int jsnum option \<Rightarrow> int jsnum" where
  "spec_limit l =
     (case l of None \<Rightarrow> Fin 10 | Some v \<Rightarrow> Math_min (Fin 100) (Math_max (Fin 1) v))"

text \<open>A path id that is a positive integer: decimal digits only, with a value above 0.\<close>

definition spec_positive_integer :: "string \<Rightarrow> bool" where
  "spec_positive_integer s =
     (s \<noteq> [] \<and> list_all is_digit s \<and>
      (case parse_digits 10 s None of None \<Rightarrow> False | Some n \<Rightarrow> 0 < n))"

section \<open>Facts about strings and numbers\<close>

lemma of_char_lower_char:
  "of_char (lower_char c) = (if is_upper c then of_char c + 32 else (of_char c :: nat))"
proof -
  have "(of_char c :: nat) < 256" by simp
  then show ?thesis
    by (auto simp: lower_char_def is_upper_def Let_def)
qed

lemma is_white_space_lower_char [simp]: "is_white_space (lower_char c) = is_white_space c"
  by (simp add: is_white_space_def of_char_lower_char) (auto simp: is_upper_def Let_def)

lemma not_is_upper_lower_char [simp]: "\<not> is_upper (lower_char c)"
  by (simp add: is_upper_def[of "lower_char c"] of_char_lower_char Let_def)
     (auto simp: is_upper_def Let_def)

lemma lower_char_idem [simp]: "lower_char (lower_char c) = lower_char c"
  using not_is_upper_lower_char[of c] by (simp add: lower_char_def[of "lower_char c"])

lemma dropWhile_white_space_lower:
  "dropWhile is_white_space (map lower_char s) = map lower_char (dropWhile is_white_space s)"
  by (induction s) auto

lemma trim_toLowerCase: "trim (toLowerCase s) = toLowerCase (trim s)"
  by (simp add: trim_def toLowerCase_def dropWhile_white_space_lower rev_map)

text \<open>Stripping the end of a list leaves a clean front clean.\<close>

lemma strip_end_keeps_front:
  assumes "xs = [] \<or> \<not> P (hd xs)"
  shows "dropWhile P (rev (dropWhile P (rev xs))) = rev (dropWhile P (rev xs))"
proof (cases "rev (dropWhile P (rev xs))")
  case Nil
  show ?thesis unfolding Nil by simp
next
  case (Cons y ys)
  have "rev (dropWhile P (rev xs)) @ rev (takeWhile P (rev xs)) =
          rev (takeWhile P (rev xs) @ dropWhile P (rev xs))"
    by (simp only: rev_append)
  also have "\<dots> = rev (rev xs)" by (simp only: takeWhile_dropWhile_id)
  finally have "xs = rev (dropWhile P (rev xs)) @ rev (takeWhile P (rev xs))" by simp
  with Cons have "xs = (y # ys) @ rev (takeWhile P (rev xs))" by simp
  then have "xs \<noteq> []" and "hd xs = y"
    by (metis Nil_is_append_conv list.distinct(1), metis append_Cons list.sel(1))
  with assms have "\<not> P y" by auto
  with Cons show ?thesis by simp
qed

lemma trim_idem [simp]: "trim (trim s) = trim s"
proof -
  have front: "dropWhile is_white_space s = [] \<or>
      \<not> is_white_space (hd (dropWhile is_white_space s))"
    using hd_dropWhile[of is_white_space s] by blast
  show ?thesis
    unfolding trim_def
    by (simp add: strip_end_keeps_front[where P = is_white_space
          and xs = "dropWhile is_white_space s", OF front])
qed

lemma toLowerCase_idem [simp]: "toLowerCase (toLowerCase s) = toLowerCase s"
  by (simp add: toLowerCase_def)

lemma Math_floor_idem [simp]: "Math_floor (Math_floor a) = Math_floor a"
  by (cases a) (simp_all add: Math_floor_def)

section \<open>Sanitizing\<close>

lemma d_name_sanitize:
  "d_name (sanitizeUserData x) =
     (case d_name x of
        Val n \<Rightarrow> Val (if n \<noteq> [] then trim n else n)
      | Undefined \<Rightarrow> Undefined
      | Absent \<Rightarrow> Absent)"
  by (simp add: sanitizeUserData_def Let_def split: field.split)

lemma d_email_sanitize:
  "d_email (sanitizeUserData x) =
     (case d_email x of
        Val e \<Rightarrow> Val (if e \<noteq> [] then toLowerCase (trim e) else e)
      | Undefined \<Rightarrow> Undefined
      | Absent \<Rightarrow> Absent)"
  by (simp add: sanitizeUserData_def Let_def split: field.split)

lemma d_age_sanitize:
  "d_age (sanitizeUserData x) =
     (case d_age x of
        Val a \<Rightarrow> Val (if num_truthy a then Math_floor a else a)
      | Undefined \<Rightarrow> Undefined
      | Absent \<Rightarrow> Absent)"
  by (simp add: sanitizeUserData_def Let_def split: field.split)

lemma object_keys_sanitize: "object_keys (sanitizeUserData x) = object_keys x"
  by (simp add: object_keys_def key_in_def d_name_sanitize d_email_sanitize d_age_sanitize
      split: field.split)

lemma sanitize_twice: "sanitizeUserData (sanitizeUserData x) = sanitizeUserData x"
proof (rule user_data.equality)
  show "d_name (sanitizeUserData (sanitizeUserData x)) = d_name (sanitizeUserData x)"
    by (simp add: d_name_sanitize split: field.split)
  show "d_email (sanitizeUserData (sanitizeUserData x)) = d_email (sanitizeUserData x)"
    by (simp add: d_email_sanitize trim_toLowerCase split: field.split)
  show "d_age (sanitizeUserData (sanitizeUserData x)) = d_age (sanitizeUserData x)"
    by (simp add: d_age_sanitize split: field.split)
  show "user_data.more (sanitizeUserData (sanitizeUserData x)) = user_data.more (sanitizeUserData x)"
    by simp
qed

text \<open>
  C10. \<open>sanitizeUserData\<close> is idempotent, and the keys of its output are the keys of its
  input: the spread copies them and each assignment overwrites a key that is present.
\<close>

theorem sanitizeUserData_idempotent:
  "sanitizeUserData (sanitizeUserData x) = sanitizeUserData x \<and>
   set (object_keys (sanitizeUserData x)) = set (object_keys x)"
  by (simp add: sanitize_twice object_keys_sanitize)

lemmas string_eval = trim_def is_white_space_def toLowerCase_def lower_char_def is_upper_def
  char_of_eq_iff take_bit_eq_mod

lemma sanitize_ann_lee:
  "sanitizeUserData ann_lee =
     \<lparr>d_name = Val ''Ann Lee'', d_email = Val ''ann@example.com'', d_age = Val (Fin 29)\<rparr>"
  by (simp add: ann_lee_def sanitizeUserData_def Let_def string_eval Math_floor_def num_truthy_def)

section \<open>Validating\<close>

lemmas validate_eval = validateUserData_def name_errors_def email_errors_def age_errors_def
  key_in_def field_get_def NAME_MIN_LENGTH_def NAME_MAX_LENGTH_def EMAIL_MAX_LENGTH_def
  AGE_MIN_def num_truthy_def num_lt_def num_gt_def nat_to_string.simps digit_char_def

text \<open>
  C1. The age block of \<open>validateUserData\<close> compares with \<^verbatim>\<open>AGE_MIN\<close> where the upper bound is
  meant: the in-range age 29 is reported as an error, and the error for the age 150 names
  the bound 0, not 100.
\<close>

theorem validateUserData_rejects_age_in_range:
  "validateUserData
      \<lparr>d_name = Val ''Ann Lee'', d_email = Val ''ann@example.com'', d_age = Val (Fin 29)\<rparr> False
     = [''Age must be no more than 0 characters long''] \<and>
   validateUserData \<lparr>d_name = Absent, d_email = Absent, d_age = Val (Fin 150)\<rparr> True
     = [''Age must be no more than 0 characters long'']"
  by (simp add: validate_eval)

text \<open>Every age is an error: zero and \<^verbatim>\<open>NaN\<close> count as missing, the rest is below or above 0.\<close>

lemma age_errors_nonempty:
  "\<not> isUpdate \<or> key_in (d_age x) \<Longrightarrow> age_errors x isUpdate \<noteq> []"
  by (auto simp: age_errors_def field_get_def num_truthy_def num_lt_def num_gt_def AGE_MIN_def
      split: option.splits field.splits jsnum.splits)

lemma validate_create_nonempty: "validateUserData x False \<noteq> []"
  using age_errors_nonempty[of False x] by (simp add: validateUserData_def)

section \<open>Creating a user\<close>

lemma createUser_fails:
  "createUser db x =
     (Inl (Error (''Validation failed: '' @
        join (validateUserData (sanitizeUserData x) False) '', '')), db)"
  using validate_create_nonempty[of "sanitizeUserData x"] by (simp add: createUser_def Let_def)

text \<open>
  C2. Creating \<^verbatim>\<open>{name: "Ann Lee", email: "ANN@Example.com ", age: 29}\<close> does not succeed: the
  sanitized record has the email trimmed and in lower case, but validation rejects its age,
  so nothing is stored.
\<close>

theorem createUser_ann_lee_fails:
  "createUser seeded_db ann_lee =
     (Inl (Error ''Validation failed: Age must be no more than 0 characters long''), seeded_db)"
  by (simp add: createUser_fails sanitize_ann_lee validate_eval)

text \<open>The handler answers every creation request with 400 and leaves the database alone.\<close>

lemma starts_with_append [simp]: "starts_with (p @ r) p"
  by (induction p) auto

lemma str_includes_prefix [simp]: "str_includes (p @ r) p"
  using starts_with_append[of p r] by (cases "p @ r") auto

lemma post_users_always_400:
  "res_status (fst (post_users_handler db x)) = 400 \<and> snd (post_users_handler db x) = db"
  by (simp add: post_users_handler_def createUser_fails write_error_response_def
      error_message_def send_error_def)

text \<open>
  A unique violation raised by the INSERT itself leaves \<open>createUser\<close> as
  \<^verbatim>\<open>Error('Failed to create user')\<close>, which the handler answers with 500.
\<close>

lemma failed_create_is_500:
  "res_status (write_error_response (Error ''Failed to create user'') :: user_response response) = 500"
  by (simp add: write_error_response_def error_message_def send_error_def)

text \<open>
  C6. Creating a record whose sanitized email is the email of an existing record is not
  answered with 409: the request body below sanitizes to the email of the first sample row,
  and the handler answers 400 (validation of the age fails first) and stores nothing.
\<close>

theorem post_users_duplicate_email_is_400:
  "d_email (sanitizeUserData john_again) = Val ''john@john.com'' \<and>
   ''john@john.com'' \<in> set (map u_email (db_rows seeded_db)) \<and>
   res_status (fst (post_users_handler seeded_db john_again)) = 400 \<and>
   snd (post_users_handler seeded_db john_again) = seeded_db"
  by (simp add: post_users_always_400 john_again_def d_email_sanitize string_eval
      seeded_db_def seeded_rows_def)

section \<open>Listing users\<close>

lemmas where_eval = getUsers_where_def push_name_def push_email_def push_minAge_def
  push_maxAge_def

lemmas page_eval = getUsers_page_def getUsers_limit_def getUsers_offset_def num_or_def
  num_truthy_def Math_max_def Math_min_def num_sub_def num_mul_def DEFAULT_PAGE_def
  DEFAULT_LIMIT_def MAX_LIMIT_def

lemmas param_eval = int_param_def text_param_def param_at_def as_integer_def as_text_def
  ranged_def int_in_range_def num_real_def

lemmas parse_eval = parseInt_def digit_val_def is_white_space_def Let_def

lemma ages_30_40_statements:
  "getUsers_count ages_30_40 =
     (CountUsers [AgeGe 1, AgeLe 2], [SqlStr ''%30%'', SqlStr ''%40%'']) \<and>
   getUsers_select ages_30_40 =
     (SelectUsers [AgeGe 1, AgeLe 2] ''age'' ''ASC'' 3,
      [SqlStr ''%30%'', SqlStr ''%40%'', SqlNum (Fin 10), SqlNum (Fin 0)])"
  by (simp add: ages_30_40_def list_request_def getUsers_count_def getUsers_select_def
      where_eval page_eval str_or_def int_to_string_def nat_to_string.simps digit_char_def
      num_real_def)

text \<open>
  C3. For \<^verbatim>\<open>minAge=30&maxAge=40\<close> the parameter bound to \<^verbatim>\<open>age >= $1\<close> is the string
  \<^verbatim>\<open>%30%\<close> and the one bound to \<^verbatim>\<open>age <= $2\<close> is the string \<^verbatim>\<open>%40%\<close>, not the numbers 30
  and 40; the database cannot read them as integers, and \<open>getUsers\<close> fails.
\<close>

theorem getUsers_binds_age_as_pattern:
  "map cond_text [AgeGe 1, AgeLe 2] = [''age >= $1'', ''age <= $2''] \<and>
   getUsers_count ages_30_40 =
     (CountUsers [AgeGe 1, AgeLe 2], [SqlStr ''%30%'', SqlStr ''%40%'']) \<and>
   getUsers_select ages_30_40 =
     (SelectUsers [AgeGe 1, AgeLe 2] ''age'' ''ASC'' 3,
      [SqlStr ''%30%'', SqlStr ''%40%'', SqlNum (Fin 10), SqlNum (Fin 0)]) \<and>
   fst (getUsers seeded_db ages_30_40) = Inl (Error ''Failed to fetch users'')"
  by (simp add: ages_30_40_statements getUsers_def Let_def db_query_def exec_count_def
      param_eval int_literal_def is_digit_def string_eval param_def nat_to_string.simps
      digit_char_def)

text \<open>The conditions and the next parameter index, by which filters are present.\<close>

lemma where_conds:
  "fst (getUsers_where q) =
     (if str_truthy (q_name q) then [NameILike 1] else []) @
     (if str_truthy (q_email q) then [EmailILike (1 + of_bool (str_truthy (q_name q)))] else []) @
     (if q_minAge q \<noteq> None
      then [AgeGe (1 + of_bool (str_truthy (q_name q)) + of_bool (str_truthy (q_email q)))]
      else []) @
     (if q_maxAge q \<noteq> None
      then [AgeLe (1 + of_bool (str_truthy (q_name q)) + of_bool (str_truthy (q_email q))
                     + of_bool (q_minAge q \<noteq> None))]
      else [])"
  by (simp add: where_eval str_truthy_def split: option.split)

lemma where_index:
  "snd (snd (getUsers_where q)) =
     1 + of_bool (str_truthy (q_name q)) + of_bool (str_truthy (q_email q))
       + of_bool (q_minAge q \<noteq> None) + of_bool (q_maxAge q \<noteq> None)"
  by (simp add: where_eval str_truthy_def split: option.split)

lemma where_length:
  "length (fst (snd (getUsers_where q))) + 1 = snd (snd (getUsers_where q))"
  by (simp add: where_eval str_truthy_def split: option.split)

text \<open>
  The values of the filters, the page and the limit do not reach the SQL text: two list
  requests with the same filters present and the same \<^verbatim>\<open>sortBy\<close> and \<^verbatim>\<open>sortOrder\<close> give
  the same text for both statements.
\<close>

lemma getUsers_text_independent_of_values:
  assumes "str_truthy (q_name a) = str_truthy (q_name b)"
    and "str_truthy (q_email a) = str_truthy (q_email b)"
    and "(q_minAge a = None) = (q_minAge b = None)"
    and "(q_maxAge a = None) = (q_maxAge b = None)"
    and "str_or (q_sortBy a) ''created_at'' = str_or (q_sortBy b) ''created_at''"
    and "str_or (q_sortOrder a) ''DESC'' = str_or (q_sortOrder b) ''DESC''"
  shows "sql_text (fst (getUsers_count a)) = sql_text (fst (getUsers_count b)) \<and>
         sql_text (fst (getUsers_select a)) = sql_text (fst (getUsers_select b))"
proof -
  have conds: "fst (getUsers_where a) = fst (getUsers_where b)"
    using assms(1-4) by (simp add: where_conds)
  have idx: "snd (snd (getUsers_where a)) = snd (snd (getUsers_where b))"
    using assms(1-4) by (simp add: where_index)
  have "fst (getUsers_count a) = fst (getUsers_count b)"
    using conds by (simp add: getUsers_count_def case_prod_beta)
  moreover have "fst (getUsers_select a) = fst (getUsers_select b)"
    using conds idx assms(5,6) by (simp add: getUsers_select_def case_prod_beta)
  ultimately show ?thesis by simp
qed

text \<open>The statements of the list request whose \<^verbatim>\<open>sortBy\<close> carries SQL of the user's own.\<close>

lemma injection_statements:
  "getUsers_count (query_params injection_query) = (CountUsers [], []) \<and>
   getUsers_select (query_params injection_query) =
     (SelectUsers [] ''age; DROP TABLE users --'' ''DESC'' 1, [SqlNum (Fin 10), SqlNum (Fin 0)])"
  by (simp add: injection_query_def query_params_def parse_opt_def str_truthy_def
      getUsers_count_def getUsers_select_def where_eval page_eval str_or_def num_real_def)

lemma injection_text:
  "str_includes (sql_text (SelectUsers [] ''age; DROP TABLE users --'' ''DESC'' 1))
     ''ORDER BY age; DROP TABLE users -- DESC''"
  by code_simp

lemma injection_sent:
  "fst (last (db_log (snd (get_users_handler seeded_db injection_query)))) =
     sql_text (SelectUsers [] ''age; DROP TABLE users --'' ''DESC'' 1)"
  by (simp add: get_users_handler_def getUsers_def Let_def injection_statements db_query_def
      exec_count_def exec_select_users_def matching_def param_eval is_negative_def
      order_rows_def order_asc_def seeded_db_def seeded_rows_def)

text \<open>
  C4. The list query writes \<^verbatim>\<open>sortBy\<close> and \<^verbatim>\<open>sortOrder\<close> into the statement text, and the
  handler passes them on as the request gives them. For the query string
  \<^verbatim>\<open>?sortBy=age; DROP TABLE users --\<close> the user's text stands in the ORDER BY clause of the
  statement that goes to the database; and two list requests that differ only in \<^verbatim>\<open>sortBy\<close>
  (\<^verbatim>\<open>name\<close>, \<^verbatim>\<open>age\<close>) give different SQL text.
\<close>

theorem getUsers_interpolates_sortBy:
  "getUsers_select (query_params injection_query) =
     (SelectUsers [] ''age; DROP TABLE users --'' ''DESC'' 1, [SqlNum (Fin 10), SqlNum (Fin 0)]) \<and>
   str_includes (sql_text (fst (getUsers_select (query_params injection_query))))
     ''ORDER BY age; DROP TABLE users -- DESC'' \<and>
   fst (last (db_log (snd (get_users_handler seeded_db injection_query)))) =
     sql_text (fst (getUsers_select (query_params injection_query))) \<and>
   sql_text (fst (getUsers_select (list_request\<lparr>q_sortBy := Some ''name''\<rparr>))) \<noteq>
   sql_text (fst (getUsers_select (list_request\<lparr>q_sortBy := Some ''age''\<rparr>)))"
proof -
  have "sql_text (fst (getUsers_select (list_request\<lparr>q_sortBy := Some ''name''\<rparr>))) \<noteq>
        sql_text (fst (getUsers_select (list_request\<lparr>q_sortBy := Some ''age''\<rparr>)))"
    by (simp add: list_request_def getUsers_select_def where_eval str_or_def nl_def)
  then show ?thesis
    using injection_text injection_sent by (simp add: injection_statements)
qed

text \<open>Page and limit as functions of the request.\<close>

lemma page_formula:
  "getUsers_page q =
     (case q_page q of None \<Rightarrow> Fin 1 | Some NaN \<Rightarrow> Fin 1 | Some (Fin p) \<Rightarrow> Fin (max 1 p))"
  by (simp add: page_eval split: option.split jsnum.split)

lemma limit_formula:
  "getUsers_limit q =
     (case q_limit q of
        None \<Rightarrow> Fin 10
      | Some NaN \<Rightarrow> Fin 10
      | Some (Fin l) \<Rightarrow> if l = 0 then Fin 10 else Fin (min 100 (max 1 l)))"
  by (simp add: page_eval split: option.split jsnum.split)

lemma page_limit_Fin:
  "\<exists>p l. getUsers_page q = Fin p \<and> getUsers_limit q = Fin l \<and> 1 \<le> p \<and> 1 \<le> l \<and> l \<le> 100 \<and>
         getUsers_offset q = Fin ((p - 1) * l)"
  by (auto simp: page_formula limit_formula getUsers_offset_def num_sub_def num_mul_def
      split: option.split jsnum.split)

lemma select_values:
  "snd (getUsers_select q) = fst (snd (getUsers_where q)) @
      [SqlNum (num_real (getUsers_limit q)), SqlNum (num_real (getUsers_offset q))]"
  by (simp add: getUsers_select_def case_prod_beta)

lemma param_at_append: "param_at (vs @ [a, b]) (Suc (length vs)) = Some a"
  by (simp add: param_at_def nth_append)

lemma limit_param:
  assumes "getUsers_limit q = Fin l"
  shows "int_param Int8 (snd (getUsers_select q)) (snd (snd (getUsers_where q))) = Inr (Some l)"
proof -
  have "snd (snd (getUsers_where q)) = length (fst (snd (getUsers_where q))) + 1"
    using where_length[of q] by simp
  moreover have "1 \<le> l \<and> l \<le> 100"
    using page_limit_Fin[of q] assms by auto
  ultimately show ?thesis
    using assms
    by (simp add: select_values int_param_def param_at_append as_integer_def ranged_def
        int_in_range_def num_real_def)
qed

lemma length_limit_rows: "0 \<le> l \<Longrightarrow> int (length (limit_rows (Some l) rows)) \<le> l"
  by (simp add: limit_rows_def)

lemma getUsers_at_most_limit:
  assumes "getUsers db q = (Inr r, db')" and "getUsers_limit q = Fin l"
  shows "int (length (pr_users r)) \<le> l \<and> p_limit (pr_pagination r) = Fin l \<and>
         p_page (pr_pagination r) = getUsers_page q"
proof -
  obtain conds vs k where w: "getUsers_where q = (conds, vs, k)"
    by (cases "getUsers_where q") auto
  have sel: "fst (getUsers_select q) =
      SelectUsers conds (str_or (q_sortBy q) ''created_at'') (str_or (q_sortOrder q) ''DESC'') k"
    by (simp add: getUsers_select_def w)
  have lp: "int_param Int8 (snd (getUsers_select q)) k = Inr (Some l)"
    using limit_param[OF assms(2)] w by simp
  have l0: "0 \<le> l" using page_limit_Fin[of q] assms(2) by auto
  from assms(1) obtain cr db1 ur where
    q2: "db_query db1 (fst (getUsers_select q)) (snd (getUsers_select q)) = (Inr ur, db')"
    and r: "r = \<lparr>pr_users = map userToResponse (result_rows ur),
                pr_pagination =
                  \<lparr>p_page = getUsers_page q, p_limit = getUsers_limit q,
                   p_total = result_count cr,
                   p_totalPages = Math_ceil_div (result_count cr) (getUsers_limit q),
                   p_hasNext =
                     num_lt (getUsers_page q) (Math_ceil_div (result_count cr) (getUsers_limit q)),
                   p_hasPrev = num_gt (getUsers_page q) (Fin 1)\<rparr>\<rparr>"
    by (auto simp: getUsers_def Let_def split: prod.splits sum.splits)
  from q2 have "exec_select_users db1 conds (str_or (q_sortBy q) ''created_at'')
      (str_or (q_sortOrder q) ''DESC'') k (snd (getUsers_select q)) = Inr ur"
    by (auto simp: db_query_def sel split: prod.splits)
  then obtain ofs ordered where "ur = Rows (limit_rows (Some l) (offset_rows ofs ordered))"
    by (auto simp: exec_select_users_def lp split: if_splits sum.splits)
  then have "int (length (result_rows ur)) \<le> l"
    using length_limit_rows[OF l0] by (simp add: result_rows_def)
  then show ?thesis using r assms(2) by simp
qed

text \<open>
  C5, as the code has it. The page is 1 when missing, 0 or \<^verbatim>\<open>NaN\<close>, and otherwise at least
  1; the limit is 10 when missing, 0 or \<^verbatim>\<open>NaN\<close>, and otherwise clamped into 1..100; the
  offset bound to the query is (page - 1) * limit, after the limit; and a list that is
  returned has at most limit records and reports this page and limit.
\<close>

theorem getUsers_pagination:
  "\<exists>p l. getUsers_page q = Fin p \<and> getUsers_limit q = Fin l \<and>
      p = (case q_page q of Some (Fin n) \<Rightarrow> max 1 n | _ \<Rightarrow> 1) \<and>
      l = (case q_limit q of Some (Fin n) \<Rightarrow> if n = 0 then 10 else min 100 (max 1 n) | _ \<Rightarrow> 10) \<and>
      1 \<le> p \<and> 1 \<le> l \<and> l \<le> 100 \<and>
      getUsers_offset q = Fin ((p - 1) * l) \<and>
      snd (getUsers_select q) = fst (snd (getUsers_where q)) @
         [SqlNum (Fin (real_of_int l)), SqlNum (Fin (real_of_int ((p - 1) * l)))] \<and>
      (\<forall>db r db'. getUsers db q = (Inr r, db') \<longrightarrow>
         int (length (pr_users r)) \<le> l \<and> p_page (pr_pagination r) = Fin p \<and>
         p_limit (pr_pagination r) = Fin l)"
proof -
  obtain p l where pl: "getUsers_page q = Fin p" "getUsers_limit q = Fin l"
      "1 \<le> p" "1 \<le> l" "l \<le> 100" "getUsers_offset q = Fin ((p - 1) * l)"
    using page_limit_Fin[of q] by auto
  have p: "p = (case q_page q of Some (Fin n) \<Rightarrow> max 1 n | _ \<Rightarrow> 1)"
    using pl(1) by (simp add: page_formula split: option.splits jsnum.splits)
  have l: "l = (case q_limit q of Some (Fin n) \<Rightarrow> if n = 0 then 10 else min 100 (max 1 n)
                | _ \<Rightarrow> 10)"
    using pl(2) by (simp add: limit_formula split: option.splits jsnum.splits if_splits)
  have v: "snd (getUsers_select q) = fst (snd (getUsers_where q)) @
         [SqlNum (Fin (real_of_int l)), SqlNum (Fin (real_of_int ((p - 1) * l)))]"
    by (simp add: select_values pl num_real_def)
  have r: "\<forall>db r db'. getUsers db q = (Inr r, db') \<longrightarrow>
         int (length (pr_users r)) \<le> l \<and> p_page (pr_pagination r) = Fin p \<and>
         p_limit (pr_pagination r) = Fin l"
    using getUsers_at_most_limit[OF _ pl(2)] pl(1) by auto
  from pl p l v r show ?thesis by blast
qed

lemma getUsers_seeded_succeeds:
  "\<exists>r db'. getUsers seeded_db (list_request\<lparr>q_page := Some (Fin 0), q_limit := Some (Fin 2)\<rparr>)
      = (Inr r, db')"
  by (simp add: getUsers_def Let_def getUsers_count_def getUsers_select_def where_eval page_eval
      list_request_def db_query_def exec_count_def exec_select_users_def matching_def param_eval
      is_negative_def order_rows_def order_asc_def str_or_def seeded_db_def seeded_rows_def
      limit_rows_def offset_rows_def result_rows_def result_count_def)

theorem getUsers_pagination_witness:
  "\<exists>r db'. getUsers seeded_db (list_request\<lparr>q_page := Some (Fin 0), q_limit := Some (Fin 2)\<rparr>)
       = (Inr r, db') \<and>
     int (length (pr_users r)) \<le> 2 \<and>
     p_page (pr_pagination r) = Fin 1 \<and> p_limit (pr_pagination r) = Fin 2"
proof -
  let ?q = "list_request\<lparr>q_page := Some (Fin 0), q_limit := Some (Fin 2)\<rparr>"
  obtain r db' where e: "getUsers seeded_db ?q = (Inr r, db')"
    using getUsers_seeded_succeeds by auto
  from getUsers_pagination[of ?q] obtain p l where
    p: "p = (case q_page ?q of Some (Fin n) \<Rightarrow> max 1 n | _ \<Rightarrow> 1)" and
    l: "l = (case q_limit ?q of Some (Fin n) \<Rightarrow> if n = 0 then 10 else min 100 (max 1 n)
              | _ \<Rightarrow> 10)" and
    r: "\<forall>db r db'. getUsers db ?q = (Inr r, db') \<longrightarrow>
         int (length (pr_users r)) \<le> l \<and> p_page (pr_pagination r) = Fin p \<and>
         p_limit (pr_pagination r) = Fin l"
    by blast
  from p have "p = 1" by (simp add: list_request_def)
  moreover from l have "l = 2" by (simp add: list_request_def)
  ultimately show ?thesis using r e by auto
qed

text \<open>
  C5 as stated fails for the limit 0: it is below 1, and the code answers with the default
  10 where clamping into 1..100 gives 1.
\<close>

theorem getUsers_limit_zero_not_clamped:
  "getUsers_limit (list_request\<lparr>q_limit := Some (Fin 0)\<rparr>) = Fin 10 \<and>
   spec_limit (q_limit (list_request\<lparr>q_limit := Some (Fin 0)\<rparr>)) = Fin 1"
  by (simp add: list_request_def page_eval spec_limit_def)

section \<open>Path ids\<close>

text \<open>
  C8, as the code has it. A path id whose \<^verbatim>\<open>parseInt\<close> value is \<^verbatim>\<open>NaN\<close> or at most 0 is
  answered with 400 by the three handlers that take an id, and the database is as it was:
  no statement has been sent, so the service was not reached.
\<close>

theorem bad_path_id_rejected:
  assumes "bad_path_id (parseInt s)"
  shows "get_user_handler db s =
           (send_error 400 ''Invalid user ID. Must be a positive integer.'' ''INVALID_USER_ID'', db) \<and>
         put_user_handler db s body =
           (send_error 400 ''Invalid user ID. Must be a positive integer.'' ''INVALID_USER_ID'', db) \<and>
         delete_user_handler db s =
           (send_error 400 ''Invalid user ID. Must be a positive integer.'' ''INVALID_USER_ID'', db)"
  using assms
  by (simp add: get_user_handler_def put_user_handler_def delete_user_handler_def Let_def)

theorem bad_path_id_rejected_witness:
  "bad_path_id (parseInt ''0'') \<and>
   snd (get_user_handler seeded_db ''0'') = seeded_db \<and>
   res_status (fst (get_user_handler seeded_db ''0'')) = 400"
proof -
  have b: "bad_path_id (parseInt ''0'')"
    by (simp add: parse_eval bad_path_id_def isNaN_def num_le_def)
  from bad_path_id_rejected[OF b, of seeded_db] show ?thesis
    using b by (simp add: send_error_def)
qed

text \<open>
  C8 as stated fails: the path id \<^verbatim>\<open>1abc\<close> is not a positive integer, and the handler reads
  it as 1, sends the SELECT and answers 200 with the first sample row.
\<close>

theorem path_id_with_suffix_accepted:
  "\<not> spec_positive_integer ''1abc'' \<and>
   fst (get_user_handler seeded_db ''1abc'') =
     send_data 200 ''User retrieved successfully'' (userToResponse (hd seeded_rows)) \<and>
   db_log (snd (get_user_handler seeded_db ''1abc'')) =
     [(''SELECT * FROM users WHERE id = $1'', [SqlNum (Fin 1)])]"
  by (simp add: spec_positive_integer_def is_digit_def get_user_handler_def parse_eval
      bad_path_id_def isNaN_def num_le_def getUserById_def invalid_user_id_def num_truthy_def
      db_query_def exec_select_by_id_def param_eval seeded_db_def seeded_rows_def result_rows_def)

section \<open>Deleting a user\<close>

lemma filter_none: "list_all (\<lambda>u. \<not> P u) xs \<Longrightarrow> filter P xs = []"
  by (induction xs) auto

lemma filter_all: "list_all P xs \<Longrightarrow> filter P xs = xs"
  by (induction xs) auto

text \<open>
  C9, as the code has it. For a positive id within the range of the \<^verbatim>\<open>id\<close> column (at most
  2147483647) that no row has, \<open>deleteUser\<close> returns \<^verbatim>\<open>false\<close> (not an error) and removes
  nothing, and the handler of a request with that id answers 404.
\<close>

theorem deleteUser_not_found:
  assumes "0 < k" and "k \<le> 2147483647"
    and "list_all (\<lambda>u. int (u_id u) \<noteq> k) (db_rows db)"
  shows "fst (deleteUser db (Fin k)) = Inr False \<and>
         db_rows (snd (deleteUser db (Fin k))) = db_rows db \<and>
         (parseInt s = Fin k \<longrightarrow> res_status (fst (delete_user_handler db s)) = 404)"
proof -
  have none: "filter (\<lambda>u. int (u_id u) = k) (db_rows db) = []"
    using assms(3) by (simp add: filter_none)
  have all: "filter (\<lambda>u. int (u_id u) \<noteq> k) (db_rows db) = db_rows db"
    using assms(3) by (simp add: filter_all)
  have valid: "\<not> invalid_user_id (Fin k)"
    using assms(1) by (simp add: invalid_user_id_def num_truthy_def num_le_def)
  have del: "deleteUser db (Fin k) =
      (Inr False,
       db\<lparr>db_rows := db_rows db,
          db_log := db_log db @ [(sql_text DeleteUserById, [SqlNum (Fin (real_of_int k))])]\<rparr>)"
    using valid assms(1,2)
    by (simp add: deleteUser_def db_query_def exec_delete_def param_eval none all
        result_length_def)
  have ok: "\<not> bad_path_id (Fin k)"
    using assms(1) by (simp add: bad_path_id_def isNaN_def num_le_def)
  show ?thesis
    using ok
    by (simp add: del delete_user_handler_def Let_def send_error_def)
qed

theorem deleteUser_not_found_witness:
  "fst (deleteUser seeded_db (Fin 999999)) = Inr False \<and>
   res_status (fst (delete_user_handler seeded_db ''999999'')) = 404"
proof -
  have a: "(0::int) < 999999" by simp
  have c: "(999999::int) \<le> 2147483647" by simp
  have b: "list_all (\<lambda>u. int (u_id u) \<noteq> 999999) (db_rows seeded_db)"
    by (simp add: seeded_db_def seeded_rows_def)
  have p: "parseInt ''999999'' = Fin 999999" by (simp add: parse_eval)
  from deleteUser_not_found[OF a c b, of "''999999''"] p show ?thesis by simp
qed

text \<open>
  C9 as stated fails: the id 2147483648 is positive and no row has it, but it does not
  fit the 32-bit \<^verbatim>\<open>id\<close> column; the DELETE is answered with an error, \<open>deleteUser\<close> throws
  \<^verbatim>\<open>Error('Failed to delete user')\<close> and the handler answers 500.
\<close>

theorem deleteUser_out_of_range_fails:
  "(0::int) < 2147483648 \<and>
   list_all (\<lambda>u. int (u_id u) \<noteq> 2147483648) (db_rows seeded_db) \<and>
   fst (deleteUser seeded_db (Fin 2147483648)) = Inl (Error ''Failed to delete user'') \<and>
   res_status (fst (delete_user_handler seeded_db ''2147483648'')) = 500"
  by (simp add: seeded_db_def seeded_rows_def deleteUser_def invalid_user_id_def num_truthy_def
      num_le_def db_query_def exec_delete_def param_eval delete_user_handler_def parse_eval
      bad_path_id_def isNaN_def send_error_def error_message_def)

section \<open>Updating a user\<close>

lemmas set_eval = updateUser_set_def push_set_name_def push_set_email_def push_set_age_def

lemma set_fields:
  "fst (updateUser_set s) =
     (if field_get (d_name s) \<noteq> None then [SetName 1] else []) @
     (if field_get (d_email s) \<noteq> None
      then [SetEmail (1 + of_bool (field_get (d_name s) \<noteq> None))] else []) @
     (if field_get (d_age s) \<noteq> None
      then [SetAge (1 + of_bool (field_get (d_name s) \<noteq> None)
                      + of_bool (field_get (d_email s) \<noteq> None))] else []) @
     [SetUpdatedAt]"
  by (simp add: set_eval split: option.split)

lemma set_index:
  "snd (snd (updateUser_set s)) = Suc (length (fst (snd (updateUser_set s))))"
  by (simp add: set_eval split: option.split)

lemma apply_set_keeps:
  assumes "apply_set vs now u f = Some u'"
  shows "u_id u' = u_id u \<and> u_created_at u' = u_created_at u \<and>
         ((\<forall>i. f \<noteq> SetName i) \<longrightarrow> u_name u' = u_name u) \<and>
         ((\<forall>i. f \<noteq> SetEmail i) \<longrightarrow> u_email u' = u_email u) \<and>
         ((\<forall>i. f \<noteq> SetAge i) \<longrightarrow> u_age u' = u_age u)"
  using assms by (cases f) (auto split: sum.splits option.splits)

lemma apply_sets_keeps:
  assumes "apply_sets vs now fs u = Some u'"
  shows "u_id u' = u_id u \<and> u_created_at u' = u_created_at u \<and>
         ((\<forall>i. SetName i \<notin> set fs) \<longrightarrow> u_name u' = u_name u) \<and>
         ((\<forall>i. SetEmail i \<notin> set fs) \<longrightarrow> u_email u' = u_email u) \<and>
         ((\<forall>i. SetAge i \<notin> set fs) \<longrightarrow> u_age u' = u_age u)"
  using assms
proof (induction fs arbitrary: u)
  case Nil
  then show ?case by simp
next
  case (Cons f fs)
  from Cons.prems obtain u1 where s1: "apply_set vs now u f = Some u1"
    and rest: "apply_sets vs now fs u1 = Some u'"
    by (auto split: option.splits)
  from apply_set_keeps[OF s1] Cons.IH[OF rest] show ?case by auto
qed

lemma new_version_keeps:
  assumes "new_version vs now fs u = Some u'"
  shows "u_id u' = u_id u \<and> u_created_at u' = u_created_at u \<and> u_updated_at u' = now \<and>
         ((\<forall>i. SetName i \<notin> set fs) \<longrightarrow> u_name u' = u_name u) \<and>
         ((\<forall>i. SetEmail i \<notin> set fs) \<longrightarrow> u_email u' = u_email u) \<and>
         ((\<forall>i. SetAge i \<notin> set fs) \<longrightarrow> u_age u' = u_age u)"
proof -
  from assms obtain u1 where a: "apply_sets vs now fs u = Some u1"
    and e: "u' = u1\<lparr>u_updated_at := now\<rparr>"
    by (auto simp: new_version_def split: option.splits)
  from apply_sets_keeps[OF a] e show ?thesis by simp
qed

lemma update_rows_changed:
  "update_rows hit f rows = Some (table, changed) \<Longrightarrow>
   map Some changed = map f (filter hit rows)"
proof (induction rows arbitrary: table changed)
  case Nil
  then show ?case by simp
next
  case (Cons u us)
  then show ?case by (auto split: option.splits prod.splits if_splits)
qed

lemma find_filter: "List.find P xs = Some x \<Longrightarrow> \<exists>ys. filter P xs = x # ys"
  by (induction xs) (auto split: if_splits)

lemma getUserById_valid:
  assumes "\<not> invalid_user_id (Fin k)" and "k \<le> 2147483647"
  shows "getUserById db (Fin k) =
     ((case filter (\<lambda>u. int (u_id u) = k) (db_rows db) of
         [] \<Rightarrow> Inr None
       | u # us \<Rightarrow> Inr (Some (userToResponse u))),
      db\<lparr>db_log := db_log db @ [(sql_text SelectUserById, [SqlNum (Fin (real_of_int k))])]\<rparr>)"
proof -
  have "0 < k"
    using assms(1) by (simp add: invalid_user_id_def num_truthy_def num_le_def)
  then show ?thesis
    using assms
    by (simp add: getUserById_def db_query_def exec_select_by_id_def param_eval result_rows_def
        split: list.split)
qed

text \<open>An id beyond the \<^verbatim>\<open>id\<close> column's range makes the lookup fail.\<close>

lemma getUserById_out_of_range:
  assumes "\<not> k \<le> 2147483647"
  shows "fst (getUserById db (Fin k)) = Inl (Error ''Failed to fetch user'') \<or>
         fst (getUserById db (Fin k)) = Inl (Error ''Invalid user ID'')"
  using assms
  by (simp add: getUserById_def db_query_def exec_select_by_id_def param_eval)

lemma findUserByEmail_db:
  "db_rows (snd (findUserByEmail db e)) = db_rows db \<and>
   db_now (snd (findUserByEmail db e)) = db_now db"
  by (simp add: findUserByEmail_def db_query_def exec_select_by_email_def param_eval
      result_rows_def split: list.split)

lemma email_taken_db:
  "db_rows (snd (email_taken db s e)) = db_rows db \<and>
   db_now (snd (email_taken db s e)) = db_now db"
proof (cases "field_get (d_email s)")
  case None
  then show ?thesis by (simp add: email_taken_def)
next
  case (Some email)
  show ?thesis
  proof (cases "email \<noteq> [] \<and> email \<noteq> r_email e")
    case True
    obtain found dbx where f: "findUserByEmail db email = (found, dbx)"
      by (cases "findUserByEmail db email") auto
    with findUserByEmail_db[of db email]
    have "db_rows dbx = db_rows db \<and> db_now dbx = db_now db" by simp
    with Some True f show ?thesis by (cases found) (simp_all add: email_taken_def)
  next
    case False
    with Some show ?thesis by (auto simp: email_taken_def)
  qed
qed

lemma param_at_last: "param_at (vs @ [a]) (Suc (length vs)) = Some a"
  by (simp add: param_at_def nth_append)

lemma field_get_name_sanitize:
  "(field_get (d_name (sanitizeUserData x)) = None) = (field_get (d_name x) = None)"
  by (simp add: d_name_sanitize field_get_def split: field.split)

lemma field_get_email_sanitize:
  "(field_get (d_email (sanitizeUserData x)) = None) = (field_get (d_email x) = None)"
  by (simp add: d_email_sanitize field_get_def split: field.split)

lemma field_get_age_sanitize:
  "(field_get (d_age (sanitizeUserData x)) = None) = (field_get (d_age x) = None)"
  by (simp add: d_age_sanitize field_get_def split: field.split)

text \<open>
  A successful update returns the new version of the row with the given id, made by the
  UPDATE whose SET clause \<open>updateUser_set\<close> built; that UPDATE is the last statement sent.
\<close>

lemma updateUser_result:
  assumes ok: "updateUser db (Fin k) updateData = (Inr (Some r), db')"
      and old: "List.find (\<lambda>u. int (u_id u) = k) (db_rows db) = Some old"
  shows "\<exists>vs u'.
           new_version vs (db_now db) (fst (updateUser_set (sanitizeUserData updateData))) old = Some u' \<and>
           r = userToResponse u' \<and>
           last (db_log db') =
             (sql_text (UpdateUser (fst (updateUser_set (sanitizeUserData updateData)))
                                   (snd (snd (updateUser_set (sanitizeUserData updateData))))), vs)"
proof -
  define sd where "sd = sanitizeUserData updateData"
  have valid: "\<not> invalid_user_id (Fin k)"
    using ok by (auto simp: updateUser_def split: if_splits)
  have noerr: "\<not> 0 < length (validateUserData sd True)"
    using ok valid by (auto simp: updateUser_def Let_def sd_def split: if_splits)
  obtain ys where flt: "filter (\<lambda>u. int (u_id u) = k) (db_rows db) = old # ys"
    using find_filter[OF old] by auto
  have range: "k \<le> 2147483647"
  proof (rule ccontr)
    assume "\<not> k \<le> 2147483647"
    from getUserById_out_of_range[OF this, of db] obtain m dbx where
      "getUserById db (Fin k) = (Inl (Error m), dbx)"
      by (cases "getUserById db (Fin k)") auto
    with ok valid noerr show False
      by (simp add: updateUser_def Let_def sd_def)
  qed
  define db1 where
    "db1 = db\<lparr>db_log := db_log db @ [(sql_text SelectUserById, [SqlNum (Fin (real_of_int k))])]\<rparr>"
  have g: "getUserById db (Fin k) = (Inr (Some (userToResponse old)), db1)"
    using getUserById_valid[OF valid range, of db] flt by (simp add: db1_def)
  obtain taken db2 where et: "email_taken db1 sd (userToResponse old) = (taken, db2)"
    by (cases "email_taken db1 sd (userToResponse old)") auto
  have db2: "db_rows db2 = db_rows db" "db_now db2 = db_now db"
    using email_taken_db[of db1 sd "userToResponse old"] et by (simp_all add: db1_def)
  obtain flds vals idx where us: "updateUser_set sd = (flds, vals, idx)"
    by (cases "updateUser_set sd") auto
  have idx: "idx = Suc (length vals)"
    using set_index[of sd] us by simp
  define vs where "vs = vals @ [SqlNum (Fin (real_of_int k))]"
  have vs_eq: "vals @ [SqlNum (num_real (Fin k))] = vs"
    by (simp add: vs_def num_real_def)
  from ok have core:
    "(if taken then (Inl (Error ''User with this email already exists''), db2)
      else (case db_query db2 (UpdateUser flds idx) vs of
             (Inl e, db3) \<Rightarrow> (Inl (Error ''Failed to update user''), db3)
           | (Inr result, db3) \<Rightarrow>
               (case result_rows result of
                  [] \<Rightarrow> (Inr None, db3)
                | updatedUser # us \<Rightarrow> (Inr (Some (userToResponse updatedUser)), db3))))
     = (Inr (Some r), db')"
    using valid noerr g
    by (cases taken) (simp_all add: updateUser_def Let_def sd_def[symmetric] et us vs_eq)
  then obtain result u' rest where
    q: "db_query db2 (UpdateUser flds idx) vs = (Inr result, db')"
    and rr: "result_rows result = u' # rest" and r: "r = userToResponse u'"
    by (auto split: if_splits prod.splits sum.splits list.splits)
  from q obtain dbx where ex: "exec_update db2 flds idx vs = (Inr result, dbx)"
    and lg: "db' = dbx\<lparr>db_log := db_log dbx @ [(sql_text (UpdateUser flds idx), vs)]\<rparr>"
    by (auto simp: db_query_def split: prod.splits)
  have pos: "0 < k"
    using valid by (simp add: invalid_user_id_def num_truthy_def num_le_def)
  have ip: "int_param Int4 vs idx = Inr (Some k)"
    using pos range
    by (simp add: int_param_def vs_def idx param_at_last as_integer_def ranged_def
        int_in_range_def)
  from ex obtain table changed where
    ur: "update_rows (\<lambda>u. int (u_id u) = k) (new_version vs (db_now db2) flds) (db_rows db2)
           = Some (table, changed)"
    and res: "result = Rows changed"
    by (auto simp: exec_update_def ip split: if_splits option.splits prod.splits)
  from rr res have ch: "changed = u' # rest" by (simp add: result_rows_def)
  from update_rows_changed[OF ur]
  have "map Some changed = map (new_version vs (db_now db2) flds) (old # ys)"
    by (simp add: db2 flt)
  with ch have nv: "new_version vs (db_now db) flds old = Some u'" by (simp add: db2)
  have f: "flds = fst (updateUser_set (sanitizeUserData updateData))"
    and i: "idx = snd (snd (updateUser_set (sanitizeUserData updateData)))"
    using us by (simp_all add: sd_def)
  from lg have "last (db_log db') = (sql_text (UpdateUser flds idx), vs)" by simp
  with nv r f i show ?thesis by auto
qed

text \<open>
  C7. The SET clause of an update holds an assignment for exactly those of \<^verbatim>\<open>name\<close>,
  \<^verbatim>\<open>email\<close>, \<^verbatim>\<open>age\<close> that are defined in the sanitized payload, and \<^verbatim>\<open>updated_at = NOW()\<close>
  always; in the record a successful update returns, every field the payload omits is as it
  was in the row, and \<^verbatim>\<open>updated_at\<close> is the time of the update.
\<close>

theorem updateUser_frame:
  assumes "updateUser db (Fin k) updateData = (Inr (Some r), db')"
      and "List.find (\<lambda>u. int (u_id u) = k) (db_rows db) = Some old"
  shows "fst (last (db_log db')) =
           sql_text (UpdateUser (fst (updateUser_set (sanitizeUserData updateData)))
                                (snd (snd (updateUser_set (sanitizeUserData updateData))))) \<and>
         fst (updateUser_set (sanitizeUserData updateData)) =
           (if field_get (d_name (sanitizeUserData updateData)) \<noteq> None then [SetName 1] else []) @
           (if field_get (d_email (sanitizeUserData updateData)) \<noteq> None
            then [SetEmail (1 + of_bool (field_get (d_name (sanitizeUserData updateData)) \<noteq> None))]
            else []) @
           (if field_get (d_age (sanitizeUserData updateData)) \<noteq> None
            then [SetAge (1 + of_bool (field_get (d_name (sanitizeUserData updateData)) \<noteq> None)
                            + of_bool (field_get (d_email (sanitizeUserData updateData)) \<noteq> None))]
            else []) @
           [SetUpdatedAt] \<and>
         (field_get (d_name updateData) = None \<longrightarrow> r_name r = u_name old) \<and>
         (field_get (d_email updateData) = None \<longrightarrow> r_email r = u_email old) \<and>
         (field_get (d_age updateData) = None \<longrightarrow> r_age r = u_age old) \<and>
         r_id r = u_id old \<and> r_created_at r = u_created_at old \<and>
         r_updated_at r = db_now db"
proof -
  let ?sd = "sanitizeUserData updateData"
  from updateUser_result[OF assms] obtain vs u' where
    nv: "new_version vs (db_now db) (fst (updateUser_set ?sd)) old = Some u'"
    and r: "r = userToResponse u'"
    and lg: "last (db_log db') =
       (sql_text (UpdateUser (fst (updateUser_set ?sd)) (snd (snd (updateUser_set ?sd)))), vs)"
    by blast
  note keeps = new_version_keeps[OF nv]
  have n: "field_get (d_name updateData) = None \<Longrightarrow> \<forall>i. SetName i \<notin> set (fst (updateUser_set ?sd))"
    by (simp add: set_fields field_get_name_sanitize)
  have e: "field_get (d_email updateData) = None \<Longrightarrow> \<forall>i. SetEmail i \<notin> set (fst (updateUser_set ?sd))"
    by (simp add: set_fields field_get_email_sanitize)
  have a: "field_get (d_age updateData) = None \<Longrightarrow> \<forall>i. SetAge i \<notin> set (fst (updateUser_set ?sd))"
    by (simp add: set_fields field_get_age_sanitize)
  have frame: "(field_get (d_name updateData) = None \<longrightarrow> r_name r = u_name old) \<and>
         (field_get (d_email updateData) = None \<longrightarrow> r_email r = u_email old) \<and>
         (field_get (d_age updateData) = None \<longrightarrow> r_age r = u_age old) \<and>
         r_id r = u_id old \<and> r_created_at r = u_created_at old \<and>
         r_updated_at r = db_now db"
    using keeps n e a by (simp add: r userToResponse_def)
  from lg have "fst (last (db_log db')) =
      sql_text (UpdateUser (fst (updateUser_set ?sd)) (snd (snd (updateUser_set ?sd))))"
    by simp
  with frame set_fields[of ?sd] show ?thesis by simp
qed

lemma sanitize_jane_rename:
  "sanitizeUserData jane_rename = \<lparr>d_name = Val ''Jane Doe'', d_email = Absent, d_age = Absent\<rparr>"
  by (simp add: jane_rename_def sanitizeUserData_def Let_def string_eval)

lemma update_jane_succeeds:
  "fst (updateUser seeded_db (Fin 2) jane_rename) =
    Inr (Some \<lparr>r_id = 2, r_name = ''Jane Doe'', r_email = ''jane@jane.com'', r_age = Some 25,
               r_created_at = 0, r_updated_at = 7\<rparr>)"
  by (simp add: updateUser_def Let_def sanitize_jane_rename invalid_user_id_def num_truthy_def
      num_le_def validate_eval getUserById_def db_query_def exec_select_by_id_def param_eval
      result_rows_def seeded_db_def seeded_rows_def email_taken_def set_eval exec_update_def
      new_version_def row_violation_def userToResponse_def)

theorem updateUser_frame_witness:
  "\<exists>r db'. updateUser seeded_db (Fin 2) jane_rename = (Inr (Some r), db') \<and>
      r_name r = ''Jane Doe'' \<and> r_email r = ''jane@jane.com'' \<and> r_age r = Some 25 \<and>
      r_id r = 2 \<and> r_created_at r = 0 \<and> r_updated_at r = 7 \<and>
      fst (last (db_log db')) = sql_text (UpdateUser [SetName 1, SetUpdatedAt] 2)"
proof -
  obtain r db' where u: "updateUser seeded_db (Fin 2) jane_rename = (Inr (Some r), db')"
    and rn: "r_name r = ''Jane Doe''"
    using update_jane_succeeds by (cases "updateUser seeded_db (Fin 2) jane_rename") auto
  have f: "List.find (\<lambda>u. int (u_id u) = 2) (db_rows seeded_db) = Some (seeded_rows ! 1)"
    by (simp add: seeded_db_def seeded_rows_def)
  have s: "updateUser_set (sanitizeUserData jane_rename) =
      ([SetName 1, SetUpdatedAt], [SqlStr ''Jane Doe''], 2)"
    by (simp add: sanitize_jane_rename set_eval field_get_def)
  have omitted: "field_get (d_email jane_rename) = None" "field_get (d_age jane_rename) = None"
    by (simp_all add: jane_rename_def field_get_def)
  from updateUser_frame[OF u f] omitted have
    "fst (last (db_log db')) =
       sql_text (UpdateUser (fst (updateUser_set (sanitizeUserData jane_rename)))
                            (snd (snd (updateUser_set (sanitizeUserData jane_rename)))))"
    and "r_email r = u_email (seeded_rows ! 1)"
    and "r_age r = u_age (seeded_rows ! 1)"
    and "r_id r = u_id (seeded_rows ! 1)"
    and "r_created_at r = u_created_at (seeded_rows ! 1)"
    and "r_updated_at r = db_now seeded_db"
    by blast+
  then show ?thesis
    using u rn by (simp add: s seeded_rows_def seeded_db_def)
qed

text \<open>The text of that UPDATE has the SET clause \<^verbatim>\<open>SET name = $1, updated_at = NOW()\<close>.\<close>

lemma update_name_text:
  "str_includes (sql_text (UpdateUser [SetName 1, SetUpdatedAt] 2))
     ''SET name = $1, updated_at = NOW()'' \<and>
   str_includes (sql_text (UpdateUser [SetName 1, SetUpdatedAt] 2)) ''WHERE id = $2''"
  by code_simp

end
